theory Spec2Isabelle
  imports Complex_Main "HOL-Library.AList"
begin

section \<open>Python values, errors and slices\<close>

text \<open>
  The exceptions the modelled functions can raise. \<open>ValueError_not_in_list\<close> is the
  \<^verbatim>\<open>ValueError\<close> of \<^verbatim>\<open>list.index\<close>, \<open>ValueError_all_scalars\<close> the one of
  \<^verbatim>\<open>pd.DataFrame\<close> on a dict of scalars only, \<open>ValueError_lengths\<close> the one on
  lists of different lengths, \<open>ValueError_int\<close> the one of \<^verbatim>\<open>int\<close>
  on a malformed literal. \<open>SystemExit\<close> is \<^verbatim>\<open>sys.exit(0)\<close>.
\<close>

datatype error =
    KeyError string
  | IndexError
  | TypeError
  | ValueError_not_in_list
  | ValueError_all_scalars
  | ValueError_lengths
  | ValueError_int
  | FileNotFoundError
  | SystemExit

text \<open>
  Python's \<^verbatim>\<open>s[a:b]\<close> on a sequence of length \<open>n\<close>: a negative bound counts from the
  end, and both bounds are clipped to \<open>0..n\<close>. A NumPy basic slice along one axis
  selects the same positions.
\<close>

definition slice_bound :: "nat \<Rightarrow> int \<Rightarrow> nat" where
  "slice_bound n a = (if a < 0 then nat (max (a + int n) 0) else min (nat a) n)"

definition py_slice :: "'a list \<Rightarrow> int \<Rightarrow> int \<Rightarrow> 'a list" where
  "py_slice xs a b =
     (let lo = slice_bound (length xs) a; hi = slice_bound (length xs) b
      in take (hi - lo) (drop lo xs))"

section \<open>Filename metadata parser\<close>

text \<open>
  \<^verbatim>\<open>
  date = filename[10:18]
  time = filename[-12:-4]
  folder = filename[19:27]
  filenumber = filename[28:31]
  return date, time, folder, filenumber
  \<close>
\<close>

definition getFileInfo :: "string \<Rightarrow> string \<times> string \<times> string \<times> string" where
  "getFileInfo filename =
     (let date = py_slice filename 10 18;
          time = py_slice filename (- 12) (- 4);
          folder = py_slice filename 19 27;
          filenumber = py_slice filename 28 31
      in (date, time, folder, filenumber))"

section \<open>Raising computations\<close>

text \<open>
  A computation that may raise is a value of \<open>error + 'a\<close>. \<open>bindE\<close> sequences two
  of them, \<open>collect\<close> is a list comprehension whose body may raise: the first
  exception ends it. \<open>py_nth\<close> is \<^verbatim>\<open>xs[i]\<close> for an index \<open>i \<ge> 0\<close>.
\<close>

definition bindE :: "error + 'a \<Rightarrow> ('a \<Rightarrow> error + 'b) \<Rightarrow> error + 'b" where
  "bindE m f = (case m of Inl e \<Rightarrow> Inl e | Inr x \<Rightarrow> f x)"

fun collect :: "('a \<Rightarrow> error + 'b) \<Rightarrow> 'a list \<Rightarrow> error + 'b list" where
  "collect f [] = Inr []"
| "collect f (x # xs) =
     (case f x of
        Inl e \<Rightarrow> Inl e
      | Inr y \<Rightarrow> (case collect f xs of Inl e \<Rightarrow> Inl e | Inr ys \<Rightarrow> Inr (y # ys)))"

definition py_nth :: "'a list \<Rightarrow> nat \<Rightarrow> error + 'a" where
  "py_nth xs i = (if i < length xs then Inr (xs ! i) else Inl IndexError)"

section \<open>Grid rotator\<close>

text \<open>
  A delimited file is held as the rows of string cells that \<^verbatim>\<open>csv.reader\<close> yields and
  \<^verbatim>\<open>csv.writer\<close> writes back; the file system maps a path to the rows of the file.
  \<^verbatim>\<open>
  csvcontent = [row for row in reader]
  csvcontent_new = [[csvcontent[i][j] for j in
                     reversed(range(len(csvcontent[0])))]
                    for i in reversed(range(len(csvcontent)))]
  \<close>
  The width of every new row is the length of row 0, which is read once per row of the
  outer comprehension (so never on a file without rows).
\<close>

type_synonym csvfile = "string list list"

definition rotate180 :: "'a list list \<Rightarrow> error + 'a list list" where
  "rotate180 csvcontent =
     collect (\<lambda>i.
        bindE (py_nth csvcontent 0) (\<lambda>row0.
          collect (\<lambda>j. bindE (py_nth csvcontent i) (\<lambda>row. py_nth row j))
            (rev [0..<length row0])))
       (rev [0..<length csvcontent])"

text \<open>
  The file is opened for writing only after the new content has been built: an
  exception while building it leaves the file as it was.
\<close>

definition rotateCSVFile180 ::
  "string \<Rightarrow> (string \<rightharpoonup> csvfile) \<Rightarrow> error + (string \<rightharpoonup> csvfile)" where
  "rotateCSVFile180 csvpath files =
     (case files csvpath of
        None \<Rightarrow> Inl FileNotFoundError
      | Some csvcontent \<Rightarrow>
          (case rotate180 csvcontent of
             Inl e \<Rightarrow> Inl e
           | Inr csvcontent_new \<Rightarrow> Inr (files(csvpath \<mapsto> csvcontent_new))))"

text \<open>A grid is rectangular when all its rows have the length of the first one.\<close>

definition rectangular :: "'a list list \<Rightarrow> bool" where
  "rectangular g = list_all (\<lambda>row. length row = length (hd g)) g"

section \<open>Calibration table\<close>

text \<open>
  The values a calibration table holds: the loader stores strings in the
  \<^verbatim>\<open>measurement\<close> column (or \<^verbatim>\<open>None\<close> where a line is too short) and integers in
  every other column. The table is a Python dict from column name to the list of the
  column's values, one per calibration row; it is kept as an association list in
  insertion order.
\<close>

datatype pyval = PStr string | PInt int | PNone

type_synonym positions = "(string \<times> pyval list) list"

definition dict_get :: "(string \<times> 'v) list \<Rightarrow> string \<Rightarrow> error + 'v" where
  "dict_get d k = (case map_of d k of None \<Rightarrow> Inl (KeyError k) | Some v \<Rightarrow> Inr v)"

text \<open>\<^verbatim>\<open>xs[i]\<close> for any integer: a negative index counts from the end.\<close>

definition py_item :: "'a list \<Rightarrow> int \<Rightarrow> error + 'a" where
  "py_item xs i =
     (if 0 \<le> i \<and> i < int (length xs) then Inr (xs ! nat i)
      else if i < 0 \<and> - int (length xs) \<le> i then Inr (xs ! nat (i + int (length xs)))
      else Inl IndexError)"

section \<open>Zone statistics engine\<close>

text \<open>
  A cell of a frame is a double, or NaN: \<open>None\<close> stands for NaN, and the finite
  doubles are idealised as real numbers, so rounding is not modelled.
\<close>

type_synonym cell = "real option"

text \<open>
  A slice bound taken from the calibration table must be an integer or \<^verbatim>\<open>None\<close>
  (an open bound); anything else is a \<^verbatim>\<open>TypeError\<close>.
\<close>

fun slice_index :: "pyval \<Rightarrow> error + int option" where
  "slice_index (PInt i) = Inr (Some i)"
| "slice_index PNone = Inr None"
| "slice_index (PStr s) = Inl TypeError"

definition np_slice :: "'a list \<Rightarrow> int option \<Rightarrow> int option \<Rightarrow> 'a list" where
  "np_slice xs a b =
     (let n = length xs;
          lo = (case a of None \<Rightarrow> 0 | Some i \<Rightarrow> slice_bound n i);
          hi = (case b of None \<Rightarrow> n | Some i \<Rightarrow> slice_bound n i)
      in take (hi - lo) (drop lo xs))"

text \<open>
  \<^verbatim>\<open>np.array(image)[e0:e1, e2:e3]\<close>. Only nested rows of one common length, at least
  one of them, make a two-dimensional array. From no rows at all \<^verbatim>\<open>np.array\<close> makes
  a one-dimensional array of length 0, and from rows of different lengths a
  one-dimensional array of row objects (in the NumPy releases that go with the pandas
  \<^verbatim>\<open>DataFrame.append\<close> the driver calls); indexing either with two slices raises
  \<^verbatim>\<open>IndexError\<close> (too many indices).
\<close>

definition np_array :: "'a list list \<Rightarrow> error + 'a list list" where
  "np_array img = (if img \<noteq> [] \<and> rectangular img then Inr img else Inl IndexError)"

definition np_index2 ::
  "'a list list \<Rightarrow> pyval \<Rightarrow> pyval \<Rightarrow> pyval \<Rightarrow> pyval \<Rightarrow> error + 'a list list" where
  "np_index2 arr e0 e1 e2 e3 =
     bindE (slice_index e0) (\<lambda>r0. bindE (slice_index e1) (\<lambda>r1.
     bindE (slice_index e2) (\<lambda>c0. bindE (slice_index e3) (\<lambda>c1.
       Inr (map (\<lambda>row. np_slice row c0 c1) (np_slice arr r0 r1))))))"

text \<open>
  The three reductions run over all cells of the region. Each answers NaN when a cell
  is NaN and when the region has no cell (NumPy warns, and does not raise).
  \<^item> \<^verbatim>\<open>np.mean\<close>: the sum divided by the number of cells.
  \<^item> \<^verbatim>\<open>np.median\<close>: with \<open>index = n // 2\<close>, the mean of the cells at
    \<open>index\<close> (odd \<open>n\<close>) or at \<open>index - 1\<close> and \<open>index\<close> (even \<open>n\<close>) of the
    partitioned cells, which are there in the places a full sort gives them.
  \<^item> \<^verbatim>\<open>np.std\<close>: the square root of the sum of the squared deviations from the
    mean divided by \<open>n - ddof\<close>, where \<open>ddof\<close> has its default 0.
\<close>

definition cell_values :: "cell list \<Rightarrow> real list option" where
  "cell_values cells =
     (if cells \<noteq> [] \<and> list_all (\<lambda>c. c \<noteq> None) cells then Some (map the cells) else None)"

definition mean_list :: "real list \<Rightarrow> real" where
  "mean_list xs = sum_list xs / real (length xs)"

definition np_mean :: "cell list \<Rightarrow> cell" where
  "np_mean cells = map_option mean_list (cell_values cells)"

definition median_partitioned :: "real list \<Rightarrow> real" where
  "median_partitioned xs =
     (let part = sort xs; n = length part; index = n div 2
      in if n mod 2 = 1 then mean_list (take 1 (drop index part))
         else mean_list (take 2 (drop (index - 1) part)))"

definition np_median :: "cell list \<Rightarrow> cell" where
  "np_median cells = map_option median_partitioned (cell_values cells)"

definition std_ddof :: "nat \<Rightarrow> real list \<Rightarrow> real" where
  "std_ddof ddof xs =
     (let arrmean = sum_list xs / real (length xs);
          x = map (\<lambda>v. v - arrmean) xs;
          rcount = length xs - ddof
      in sqrt (sum_list (map (\<lambda>d. d * d) x) / real rcount))"

definition np_std :: "cell list \<Rightarrow> cell" where
  "np_std cells = map_option (std_ddof 0) (cell_values cells)"

text \<open>
  \<^verbatim>\<open>
  edges = [positions[zone_name+"_row_start"][iod],
           positions[zone_name+"_row_end"][iod],
           positions[zone_name+"_col_start"][iod],
           positions[zone_name+"_col_end"][iod]]
  roi = np.array(image)[edges[0]:edges[1], edges[2]:edges[3]]
  median = np.median(roi)
  mean = np.mean(roi)
  std = np.std(roi)
  return median, mean, std
  \<close>
  (The parameter \<^verbatim>\<open>image\<close> is written \<open>img\<close>.)
\<close>

definition zone_edge :: "positions \<Rightarrow> string \<Rightarrow> string \<Rightarrow> int \<Rightarrow> error + pyval" where
  "zone_edge positions zone_name suffix iod =
     bindE (dict_get positions (zone_name @ suffix)) (\<lambda>column. py_item column iod)"

definition getIRDataFromZone ::
  "cell list list \<Rightarrow> positions \<Rightarrow> string \<Rightarrow> int \<Rightarrow> error + (cell \<times> cell \<times> cell)" where
  "getIRDataFromZone img positions zone_name iod =
     bindE (zone_edge positions zone_name ''_row_start'' iod) (\<lambda>e0.
     bindE (zone_edge positions zone_name ''_row_end'' iod) (\<lambda>e1.
     bindE (zone_edge positions zone_name ''_col_start'' iod) (\<lambda>e2.
     bindE (zone_edge positions zone_name ''_col_end'' iod) (\<lambda>e3.
     bindE (np_array img) (\<lambda>arr.
     bindE (np_index2 arr e0 e1 e2 e3) (\<lambda>roi.
       let median = np_median (concat roi);
           mean = np_mean (concat roi);
           std = np_std (concat roi)
       in Inr (median, mean, std)))))))"

subsection \<open>The statistics as the specification words them\<close>

text \<open>
  The sub-rectangle of a grid with rows \<open>r0 \<le> i < r1\<close> and columns
  \<open>c0 \<le> j < c1\<close>, in row-major order from the top-left origin; the part of a
  requested rectangle that lies inside the grid; and the median, the arithmetic mean
  and the population standard deviation (denominator \<open>N\<close>) of a list of numbers.
  On a region without cells the three statistics are not defined, which is NaN here.
\<close>

definition sub_rectangle :: "'a list list \<Rightarrow> nat \<Rightarrow> nat \<Rightarrow> nat \<Rightarrow> nat \<Rightarrow> 'a list list" where
  "sub_rectangle grid r0 r1 c0 c1 = map (\<lambda>i. map (\<lambda>j. grid ! i ! j) [c0..<c1]) [r0..<r1]"

definition inside :: "nat \<Rightarrow> int \<Rightarrow> int \<Rightarrow> nat list" where
  "inside n a b = filter (\<lambda>i. a \<le> int i \<and> int i < b) [0..<n]"

definition clipped_rectangle :: "'a list list \<Rightarrow> int \<Rightarrow> int \<Rightarrow> int \<Rightarrow> int \<Rightarrow> 'a list list" where
  "clipped_rectangle grid rs re cs ce =
     map (\<lambda>i. map (\<lambda>j. grid ! i ! j) (inside (length (hd grid)) cs ce)) (inside (length grid) rs re)"

definition arithmetic_mean :: "real list \<Rightarrow> real" where
  "arithmetic_mean xs = (\<Sum>x\<leftarrow>xs. x) / real (length xs)"

definition median_of :: "real list \<Rightarrow> real" where
  "median_of xs =
     (let s = sort xs; n = length xs
      in if odd n then s ! (n div 2) else (s ! (n div 2 - 1) + s ! (n div 2)) / 2)"

definition population_std :: "real list \<Rightarrow> real" where
  "population_std xs = sqrt ((\<Sum>x\<leftarrow>xs. (x - arithmetic_mean xs)\<^sup>2) / real (length xs))"

definition over :: "(real list \<Rightarrow> real) \<Rightarrow> real list \<Rightarrow> cell" where
  "over f xs = (if xs = [] then None else Some (f xs))"

section \<open>Frame aggregator\<close>

subsection \<open>File names\<close>

text \<open>
  \<^verbatim>\<open>os.path.normpath\<close> and \<^verbatim>\<open>os.path.basename\<close> of \<^verbatim>\<open>posixpath\<close>:
  \<^verbatim>\<open>
  if not path: return '.'
  initial_slashes = path.startswith('/')
  if (initial_slashes and path.startswith('//') and not path.startswith('///')):
      initial_slashes = 2
  comps = path.split('/')
  new_comps = []
  for comp in comps:
      if comp in ('', '.'): continue
      if (comp != '..' or (not initial_slashes and not new_comps) or
           (new_comps and new_comps[-1] == '..')):
          new_comps.append(comp)
      elif new_comps:
          new_comps.pop()
  path = '/'.join(new_comps)
  if initial_slashes: path = '/' * initial_slashes + path
  return path or '.'
  \<close>
\<close>

fun split_on :: "char \<Rightarrow> string \<Rightarrow> string list" where
  "split_on sep [] = [[]]"
| "split_on sep (c # cs) =
     (if c = sep then [] # split_on sep cs
      else (case split_on sep cs of [] \<Rightarrow> [[c]] | w # ws \<Rightarrow> (c # w) # ws))"

fun join_on :: "char \<Rightarrow> string list \<Rightarrow> string" where
  "join_on sep [] = []"
| "join_on sep [w] = w"
| "join_on sep (w # ws) = w @ sep # join_on sep ws"

definition norm_step :: "nat \<Rightarrow> string \<Rightarrow> string list \<Rightarrow> string list" where
  "norm_step initial_slashes part new_comps =
     (if part = [] \<or> part = ''.'' then new_comps
      else if part \<noteq> ''..'' \<or> (initial_slashes = 0 \<and> new_comps = [])
                \<or> (new_comps \<noteq> [] \<and> last new_comps = ''..'')
        then new_comps @ [part]
      else if new_comps \<noteq> [] then butlast new_comps
      else new_comps)"

definition normpath :: "string \<Rightarrow> string" where
  "normpath path =
     (if path = [] then ''.''
      else
        let initial_slashes =
              (if take 1 path = ''/''
               then (if take 2 path = ''//'' \<and> take 3 path \<noteq> ''///'' then 2 else 1)
               else 0);
            new_comps = fold (norm_step initial_slashes) (split_on CHR ''/'' path) [];
            path' = replicate initial_slashes CHR ''/'' @ join_on CHR ''/'' new_comps
        in if path' = [] then ''.'' else path')"

definition basename :: "string \<Rightarrow> string" where
  "basename p = rev (takeWhile (\<lambda>c. c \<noteq> CHR ''/'') (rev p))"

subsection \<open>Frames as pandas holds them\<close>

text \<open>
  The table \<^verbatim>\<open>pd.read_csv(csvpath, delimiter=";")\<close> returns: the first line of a file
  gives the column labels, the lines after it the rows of cells, an empty field being
  NaN. A frame holds its number of rows and its labelled columns, each column with one
  cell per row. The file system maps a path to the frame read from the file; a path
  without a file raises \<^verbatim>\<open>FileNotFoundError\<close>. Files that pandas cannot parse are not
  modelled.
\<close>

record frame =
  nrows :: nat
  columns :: "(string \<times> cell list) list"

definition read_csv :: "(string \<rightharpoonup> frame) \<Rightarrow> string \<Rightarrow> error + frame" where
  "read_csv frames csvpath =
     (case frames csvpath of None \<Rightarrow> Inl FileNotFoundError | Some df \<Rightarrow> Inr df)"

text \<open>
  \<^verbatim>\<open>df.dropna(axis=1, how='all')\<close> keeps the columns that count at least one cell
  which is not NaN. \<^verbatim>\<open>df.values.tolist()\<close> gives the rows of cells.
\<close>

definition dropna_all :: "frame \<Rightarrow> frame" where
  "dropna_all df = df\<lparr>columns := filter (\<lambda>(label, col). 0 < length (filter (\<lambda>c. c \<noteq> None) col)) (columns df)\<rparr>"

definition values_tolist :: "frame \<Rightarrow> cell list list" where
  "values_tolist df = map (\<lambda>i. map (\<lambda>(label, col). col ! i) (columns df)) [0..<nrows df]"

subsection \<open>Strings of values and the index of a value\<close>

text \<open>\<^verbatim>\<open>str(x)\<close> for the values of a calibration table, and \<^verbatim>\<open>list.index\<close>.\<close>

fun digits :: "nat \<Rightarrow> string" where
  "digits n =
     (if n < 10 then [char_of (48 + n)] else digits (n div 10) @ [char_of (48 + n mod 10)])"

fun py_str :: "pyval \<Rightarrow> string" where
  "py_str (PStr s) = s"
| "py_str (PInt i) = (if i < 0 then CHR ''-'' # digits (nat (- i)) else digits (nat i))"
| "py_str PNone = ''None''"

fun py_index :: "'a list \<Rightarrow> 'a \<Rightarrow> error + nat" where
  "py_index [] x = Inl ValueError_not_in_list"
| "py_index (y # ys) x =
     (if y = x then Inr 0
      else (case py_index ys x of Inl e \<Rightarrow> Inl e | Inr i \<Rightarrow> Inr (Suc i)))"

subsection \<open>One record per file\<close>

text \<open>
  The dict the aggregator fills holds the four identity fields as scalars and every
  statistic as a list of one number. \<^verbatim>\<open>pd.DataFrame\<close> makes a table of it: the lists
  give the rows and the scalars are repeated on every row; with scalars only it raises
  a \<^verbatim>\<open>ValueError\<close>, and so it does when the lists differ in length. A table is kept as
  its rows, each row giving the value under every column label.
\<close>

datatype dictval = Scalar string | Column "cell list"

datatype dfval = DStr string | DNum cell

type_synonym table = "(string \<times> dfval) list list"

definition column_lengths :: "(string \<times> dictval) list \<Rightarrow> nat list" where
  "column_lengths d = concat (map (\<lambda>(k, v). case v of Scalar s \<Rightarrow> [] | Column l \<Rightarrow> [length l]) d)"

definition table_row :: "nat \<Rightarrow> (string \<times> dictval) list \<Rightarrow> (string \<times> dfval) list" where
  "table_row i d = map (\<lambda>(k, v). (k, case v of Scalar s \<Rightarrow> DStr s | Column l \<Rightarrow> DNum (l ! i))) d"

definition pd_DataFrame :: "(string \<times> dictval) list \<Rightarrow> error + table" where
  "pd_DataFrame d =
     (case column_lengths d of
        [] \<Rightarrow> Inl ValueError_all_scalars
      | n # ns \<Rightarrow>
          if list_all (\<lambda>m. m = n) ns then Inr (map (\<lambda>i. table_row i d) [0..<n])
          else Inl ValueError_lengths)"

text \<open>
  The argument \<^verbatim>\<open>zone_list\<close> is documented as a list of zone names; the batch driver
  passes the number of zones, an integer, over which \<^verbatim>\<open>for zone in zone_list\<close> raises
  a \<^verbatim>\<open>TypeError\<close>.
\<close>

datatype zone_arg = ZoneList "string list" | ZoneCount int

fun iterate :: "zone_arg \<Rightarrow> error + string list" where
  "iterate (ZoneList zones) = Inr zones"
| "iterate (ZoneCount n) = Inl TypeError"

text \<open>
  \<^verbatim>\<open>
  for zone in zone_list:
      ir_data = getIRDataFromZone(image=df.values.tolist(), positions=positions,
                                  zone_name=zone, iod=indexOfDataset)
      irdata_dict["ir_"+zone+"_med"] = [ir_data[0]]
      irdata_dict["ir_"+zone+"_mean"] = [ir_data[1]]
      irdata_dict["ir_"+zone+"_std"] = [ir_data[2]]
  \<close>
\<close>

definition put_zone ::
  "string \<Rightarrow> cell \<times> cell \<times> cell \<Rightarrow> (string \<times> dictval) list \<Rightarrow> (string \<times> dictval) list" where
  "put_zone zone ir_data irdata_dict =
     (case ir_data of (med, mean, std) \<Rightarrow>
        AList.update (''ir_'' @ zone @ ''_std'') (Column [std])
          (AList.update (''ir_'' @ zone @ ''_mean'') (Column [mean])
            (AList.update (''ir_'' @ zone @ ''_med'') (Column [med]) irdata_dict)))"

fun add_zones ::
  "cell list list \<Rightarrow> positions \<Rightarrow> int \<Rightarrow> string list \<Rightarrow> (string \<times> dictval) list
     \<Rightarrow> error + (string \<times> dictval) list" where
  "add_zones img positions iod [] irdata_dict = Inr irdata_dict"
| "add_zones img positions iod (zone # zones) irdata_dict =
     (case getIRDataFromZone img positions zone iod of
        Inl e \<Rightarrow> Inl e
      | Inr ir_data \<Rightarrow> add_zones img positions iod zones (put_zone zone ir_data irdata_dict))"

text \<open>
  \<^verbatim>\<open>
  filename = os.path.basename(os.path.normpath(csvpath))
  date, time, folder, filenumber = getFileInfo(filename)
  positions["measurement"] = [str(x) for x in positions["measurement"]]
  indexOfDataset = positions["measurement"].index(date)
  df = pd.read_csv(csvpath, delimiter=";")
  df = df.dropna(axis=1, how='all')
  irdata_dict = {"ir_date": date, "ir_time": time,
                 "ir_folder": folder, "ir_filenumber": filenumber}
  for zone in zone_list: ...
  return pd.DataFrame(irdata_dict)
  \<close>
  The caller's table is updated in place, so the function returns the table as it
  leaves it together with its result or exception.
\<close>

definition getIRDataFromMultipleZones ::
  "(string \<rightharpoonup> frame) \<Rightarrow> string \<Rightarrow> positions \<Rightarrow> zone_arg \<Rightarrow> positions \<times> (error + table)" where
  "getIRDataFromMultipleZones frames csvpath positions zone_list =
     (let filename = basename (normpath csvpath) in
      case getFileInfo filename of (date, time, folder, filenumber) \<Rightarrow>
      (case dict_get positions ''measurement'' of
         Inl e \<Rightarrow> (positions, Inl e)
       | Inr column \<Rightarrow>
          let measurement = map py_str column;
              positions' = AList.update ''measurement'' (map PStr measurement) positions
          in (positions',
              bindE (py_index measurement date) (\<lambda>indexOfDataset.
              bindE (read_csv frames csvpath) (\<lambda>df0.
                let df = dropna_all df0;
                    irdata_dict = [(''ir_date'', Scalar date), (''ir_time'', Scalar time),
                                   (''ir_folder'', Scalar folder),
                                   (''ir_filenumber'', Scalar filenumber)]
                in bindE (iterate zone_list) (\<lambda>zones.
                   bindE (add_zones (values_tolist df) positions' (int indexOfDataset) zones
                            irdata_dict)
                     pd_DataFrame))))))"

text \<open>
  What the aggregator does once the index of the calibration row is known, from
  \<^verbatim>\<open>pd.read_csv\<close> to the \<^verbatim>\<open>return\<close>: the same steps as above, with the table and the
  index given.
\<close>

definition record_of_row ::
  "(string \<rightharpoonup> frame) \<Rightarrow> string \<Rightarrow> positions \<Rightarrow> zone_arg \<Rightarrow> int \<Rightarrow> error + table" where
  "record_of_row frames csvpath positions zone_list indexOfDataset =
     (case getFileInfo (basename (normpath csvpath)) of (date, time, folder, filenumber) \<Rightarrow>
        bindE (read_csv frames csvpath) (\<lambda>df0.
          let df = dropna_all df0;
              irdata_dict = [(''ir_date'', Scalar date), (''ir_time'', Scalar time),
                             (''ir_folder'', Scalar folder),
                             (''ir_filenumber'', Scalar filenumber)]
          in bindE (iterate zone_list) (\<lambda>zones.
             bindE (add_zones (values_tolist df) positions indexOfDataset zones irdata_dict)
               pd_DataFrame)))"

section \<open>Calibration loader\<close>

text \<open>
  \<^verbatim>\<open>int(v)\<close> on a string: surrounding white space is dropped, a sign may lead, and
  the decimal digits may be separated by single underscores. Characters are bytes
  here and the strings are taken to be ASCII: white space is then the tab, the line
  feed, the vertical tab, the form feed, the carriage return and the blank. The digits
  and spaces beyond ASCII that Python accepts in other strings are not modelled.
\<close>

definition is_space :: "char \<Rightarrow> bool" where
  "is_space c = ((of_char c :: nat) \<in> {9, 10, 11, 12, 13, 32})"

definition is_digit :: "char \<Rightarrow> bool" where
  "is_digit c = (48 \<le> (of_char c :: nat) \<and> (of_char c :: nat) \<le> 57)"

definition strip :: "string \<Rightarrow> string" where
  "strip s = rev (dropWhile is_space (rev (dropWhile is_space s)))"

fun digit_run :: "nat \<Rightarrow> bool \<Rightarrow> string \<Rightarrow> nat option" where
  "digit_run acc after_digit [] = (if after_digit then Some acc else None)"
| "digit_run acc after_digit (c # cs) =
     (if is_digit c then digit_run (10 * acc + (of_char c - 48)) True cs
      else if c = CHR ''_'' \<and> after_digit then digit_run acc False cs
      else None)"

definition py_int :: "string \<Rightarrow> error + int" where
  "py_int s =
     (case strip s of
        [] \<Rightarrow> Inl ValueError_int
      | c # cs \<Rightarrow>
          (case (if c = CHR ''-'' \<or> c = CHR ''+'' then digit_run 0 False cs
                 else digit_run 0 False (c # cs)) of
             None \<Rightarrow> Inl ValueError_int
           | Some n \<Rightarrow> Inr (if c = CHR ''-'' then - int n else int n)))"

text \<open>
  The calibration file is held as the rows of fields that \<^verbatim>\<open>csv.reader\<close> yields with
  the blank as delimiter. \<^verbatim>\<open>csv.DictReader\<close> takes the first row as the field names
  and skips rows without fields; of every other row it makes a dict:
  \<^verbatim>\<open>
  d = dict(zip(self.fieldnames, row))
  lf = len(self.fieldnames)
  lr = len(row)
  if lf < lr:
      d[self.restkey] = row[lf:]
  elif lf > lr:
      for key in self.fieldnames[lr:]:
          d[key] = self.restval
  \<close>
  with \<^verbatim>\<open>None\<close> for both \<^verbatim>\<open>restkey\<close> and \<^verbatim>\<open>restval\<close>. The dict is kept as its named
  items (a value \<open>None\<close> is \<^verbatim>\<open>restval\<close>) and the surplus fields stored under
  \<^verbatim>\<open>restkey\<close>, which is the last key of the dict when it is there.
\<close>

definition dict_row ::
  "string list \<Rightarrow> string list \<Rightarrow> (string \<times> string option) list \<times> string list option" where
  "dict_row fieldnames row =
     (let d = fold (\<lambda>(k, v). AList.update k (Some v)) (zip fieldnames row) [];
          lf = length fieldnames;
          lr = length row
      in if lf < lr then (d, Some (drop lf row))
         else if lr < lf then (fold (\<lambda>key. AList.update key None) (drop lr fieldnames) d, None)
         else (d, None))"

definition DictReader ::
  "string list list \<Rightarrow> ((string \<times> string option) list \<times> string list option) list" where
  "DictReader rows =
     (case rows of
        [] \<Rightarrow> []
      | fieldnames # rest \<Rightarrow> map (dict_row fieldnames) (filter (\<lambda>row. row \<noteq> []) rest))"

text \<open>
  \<^verbatim>\<open>
  for row in reader:
      for c, v in row.items():
          if c == "measurement":
              pos_info.setdefault(c, []).append(v)
          else:
              pos_info.setdefault(c, []).append(int(v))
  numberOfZones = (len(pos_info.keys()) - 1) // 4
  return pos_info, numberOfZones
  \<close>
  \<^verbatim>\<open>int(None)\<close> and \<^verbatim>\<open>int\<close> of the list of surplus fields raise a \<^verbatim>\<open>TypeError\<close>.
\<close>

definition setdefault_append :: "string \<Rightarrow> pyval \<Rightarrow> positions \<Rightarrow> positions" where
  "setdefault_append c x pos_info =
     (case map_of pos_info c of
        None \<Rightarrow> pos_info @ [(c, [x])]
      | Some column \<Rightarrow> AList.update c (column @ [x]) pos_info)"

fun load_items :: "(string \<times> string option) list \<Rightarrow> positions \<Rightarrow> error + positions" where
  "load_items [] pos_info = Inr pos_info"
| "load_items ((c, v) # items) pos_info =
     (if c = ''measurement''
      then load_items items
             (setdefault_append c (case v of None \<Rightarrow> PNone | Some s \<Rightarrow> PStr s) pos_info)
      else (case v of
              None \<Rightarrow> Inl TypeError
            | Some s \<Rightarrow>
                (case py_int s of
                   Inl e \<Rightarrow> Inl e
                 | Inr i \<Rightarrow> load_items items (setdefault_append c (PInt i) pos_info))))"

fun load_rows ::
  "((string \<times> string option) list \<times> string list option) list \<Rightarrow> positions \<Rightarrow> error + positions" where
  "load_rows [] pos_info = Inr pos_info"
| "load_rows ((items, surplus) # rows) pos_info =
     (case load_items items pos_info of
        Inl e \<Rightarrow> Inl e
      | Inr pos_info' \<Rightarrow>
          (case surplus of
             Some extra \<Rightarrow> Inl TypeError
           | None \<Rightarrow> load_rows rows pos_info'))"

text \<open>
  A path that is not a file ends the program by \<^verbatim>\<open>sys.exit(0)\<close>.
\<close>

definition getPositionInformation ::
  "(string \<rightharpoonup> string list list) \<Rightarrow> string \<Rightarrow> error + positions \<times> int" where
  "getPositionInformation files position_path =
     (case files position_path of
        None \<Rightarrow> Inl SystemExit
      | Some rows \<Rightarrow>
          bindE (load_rows (DictReader rows) []) (\<lambda>pos_info.
            let numberOfZones = (int (length pos_info) - 1) div 4
            in Inr (pos_info, numberOfZones)))"

section \<open>Batch driver\<close>

text \<open>
  \<^verbatim>\<open>
  positions, numberOfZones = getPositionInformation("positions.csv")
  df_ir = pd.DataFrame()
  for i, csvfile in enumerate(glob.glob(inputFolder + "ir_export_*.csv")):
      ir_data = getIRDataFromMultipleZones(csvfile, positions, numberOfZones)
      df_ir = df_ir.append(ir_data, ignore_index=True)
  df_ir.to_csv(inputFolder + "IR_zones.csv", sep=";")
  \<close>
  The world the driver runs in gives the calibration files, the frame files and the
  paths \<^verbatim>\<open>glob.glob\<close> lists. The driver ends with the table it writes, or with the
  exception that aborts it before anything is written. The progress messages are left
  out.
\<close>

record world =
  calibration_files :: "string \<rightharpoonup> string list list"
  frame_files :: "string \<rightharpoonup> frame"
  glob_result :: "string list"

fun analyze ::
  "(string \<rightharpoonup> frame) \<Rightarrow> zone_arg \<Rightarrow> string list \<Rightarrow> positions \<Rightarrow> table \<Rightarrow> error + table" where
  "analyze frames zone_list [] positions df_ir = Inr df_ir"
| "analyze frames zone_list (csvfile # rest) positions df_ir =
     (case getIRDataFromMultipleZones frames csvfile positions zone_list of
        (positions', Inl e) \<Rightarrow> Inl e
      | (positions', Inr ir_data) \<Rightarrow> analyze frames zone_list rest positions' (df_ir @ ir_data))"

definition AnalyzeIRData :: "world \<Rightarrow> error + table" where
  "AnalyzeIRData w =
     bindE (getPositionInformation (calibration_files w) ''positions.csv'')
       (\<lambda>(positions, numberOfZones).
          analyze (frame_files w) (ZoneCount numberOfZones) (glob_result w) positions [])"

section \<open>Predicates on calibration tables and records\<close>

text \<open>
  A table has string entries when every value of its \<^verbatim>\<open>measurement\<close> column is a
  string, as the loader stores them. A dict of the aggregator records the statistics
  of a zone when it holds them, as lists of one number, under the three names the
  aggregator derives from the zone name.
\<close>

definition string_entries :: "positions \<Rightarrow> bool" where
  "string_entries positions =
     (case map_of positions ''measurement'' of
        None \<Rightarrow> True
      | Some column \<Rightarrow> list_all (\<lambda>v. case v of PStr s \<Rightarrow> True | _ \<Rightarrow> False) column)"

text \<open>
  The measurement list of a table: the strings of the entries of its
  \<^verbatim>\<open>measurement\<close> column, and no entry when the table has no such column (as the table
  loaded from a file with a header line only). The calibration lookup fails when
  \<^verbatim>\<open>positions["measurement"]\<close> raises its \<^verbatim>\<open>KeyError\<close> or \<^verbatim>\<open>.index(date)\<close> its
  \<^verbatim>\<open>ValueError\<close>; either way the aggregator returns no table.
\<close>

definition measurement_entries :: "positions \<Rightarrow> string list" where
  "measurement_entries positions =
     (case map_of positions ''measurement'' of None \<Rightarrow> [] | Some column \<Rightarrow> map py_str column)"

definition lookup_failed :: "error + table \<Rightarrow> bool" where
  "lookup_failed r = (r = Inl ValueError_not_in_list \<or> r = Inl (KeyError ''measurement''))"

definition recorded :: "(string \<times> dictval) list \<Rightarrow> string \<Rightarrow> cell \<times> cell \<times> cell \<Rightarrow> bool" where
  "recorded d zone ir_data =
     (case ir_data of (med, mean, std) \<Rightarrow>
        map_of d (''ir_'' @ zone @ ''_med'') = Some (Column [med])
      \<and> map_of d (''ir_'' @ zone @ ''_mean'') = Some (Column [mean])
      \<and> map_of d (''ir_'' @ zone @ ''_std'') = Some (Column [std]))"

definition singletons :: "(string \<times> dictval) list \<Rightarrow> bool" where
  "singletons d = list_all (\<lambda>(k, v). case v of Scalar s \<Rightarrow> True | Column l \<Rightarrow> length l = 1) d"

section \<open>Example inputs\<close>

text \<open>
  A frame file named after the convention, read as two rows of two cells of value 5
  with and without a third column that is empty on every row; a calibration file with
  one zone and one row for the date of the frame file; the world with these two files;
  a table in which the date of the frame file occurs twice, in its second and third
  rows, each of its three rows bounding another single cell; and a frame with the rows
  1, 2 and 3, 4.
\<close>

definition ex_path :: string where
  "ex_path = ''path/to/IRExport/ir_export_20170815_P0000004_005_10-50-08.csv''"

definition ex_trimmed :: frame where
  "ex_trimmed = \<lparr>nrows = 2, columns = [(''5'', [Some 5, Some 5]), (''5.1'', [Some 5, Some 5])]\<rparr>"

definition ex_frame :: frame where
  "ex_frame = \<lparr>nrows = 2, columns = [(''5'', [Some 5, Some 5]), (''5.1'', [Some 5, Some 5]),
                                     (''Unnamed: 2'', [None, None])]\<rparr>"

definition ex_calibration :: "string list list" where
  "ex_calibration =
     [[''measurement'', ''zone1_row_start'', ''zone1_row_end'', ''zone1_col_start'', ''zone1_col_end''],
      [''20170815'', ''0'', ''2'', ''0'', ''2'']]"

definition ex_world :: world where
  "ex_world = \<lparr>calibration_files = [''positions.csv'' \<mapsto> ex_calibration],
               frame_files = [ex_path \<mapsto> ex_frame],
               glob_result = [ex_path]\<rparr>"

definition dup_table :: positions where
  "dup_table =
     [(''measurement'', [PStr ''20170814'', PStr ''20170815'', PStr ''20170815'']),
      (''zone1_row_start'', [PInt 0, PInt 1, PInt 0]), (''zone1_row_end'', [PInt 1, PInt 2, PInt 1]),
      (''zone1_col_start'', [PInt 0, PInt 0, PInt 1]), (''zone1_col_end'', [PInt 1, PInt 1, PInt 2])]"

definition ex_gradient :: frame where
  "ex_gradient = \<lparr>nrows = 2, columns = [(''a'', [Some 1, Some 3]), (''b'', [Some 2, Some 4])]\<rparr>"

section \<open>Example calibration tables\<close>

text \<open>A table with one calibration row, for the date 20170815, and one zone.\<close>

definition zone1_table :: "int \<Rightarrow> int \<Rightarrow> int \<Rightarrow> int \<Rightarrow> positions" where
  "zone1_table rs re cs ce =
     [(''measurement'', [PStr ''20170815'']),
      (''zone1_row_start'', [PInt rs]), (''zone1_row_end'', [PInt re]),
      (''zone1_col_start'', [PInt cs]), (''zone1_col_end'', [PInt ce])]"

section \<open>Properties of the filename metadata parser\<close>

text \<open>
  Claim C5. On the filename \<^verbatim>\<open>ir_export_20170815_P0000004_005_10-50-08.csv\<close> the
  parser returns the date \<^verbatim>\<open>20170815\<close>, the time \<^verbatim>\<open>10-50-08\<close>, the folder
  \<^verbatim>\<open>P0000004\<close> and the file number \<^verbatim>\<open>005\<close> (in the order date, time, folder,
  file number of the source's return statement).
\<close>

theorem getFileInfo_example:
  "getFileInfo ''ir_export_20170815_P0000004_005_10-50-08.csv''
     = (''20170815'', ''10-50-08'', ''P0000004'', ''005'')"
  by (simp add: getFileInfo_def py_slice_def slice_bound_def)

section \<open>Properties of the grid rotator\<close>

lemma collect_total:
  "(\<And>x. x \<in> set xs \<Longrightarrow> f x = Inr (g x)) \<Longrightarrow> collect f xs = Inr (map g xs)"
  by (induction xs) simp_all

lemma collect_fails:
  "x \<in> set xs \<Longrightarrow> f x = Inl e \<Longrightarrow> (\<And>y. y \<in> set xs \<Longrightarrow> f y = Inl e \<or> (\<exists>z. f y = Inr z))
     \<Longrightarrow> collect f xs = Inl e"
proof (induction xs)
  case Nil
  then show ?case by simp
next
  case (Cons a xs)
  show ?case
  proof (cases "f a")
    case (Inl e')
    with Cons.prems(3) [of a] show ?thesis by simp
  next
    case (Inr z)
    with Cons.prems(1,2) have "x \<in> set xs" by auto
    with Cons.IH Cons.prems(2,3) have "collect f xs = Inl e" by simp
    with Inr show ?thesis by simp
  qed
qed

lemma rotate_row:
  "m \<le> length row \<Longrightarrow>
     collect (\<lambda>j. py_nth row j) (rev [0..<m]) = Inr (rev (take m row))"
proof -
  assume m: "m \<le> length row"
  have "collect (\<lambda>j. py_nth row j) (rev [0..<m]) = Inr (map (\<lambda>j. row ! j) (rev [0..<m]))"
    using m by (intro collect_total) (simp add: py_nth_def)
  also have "map (\<lambda>j. row ! j) (rev [0..<m]) = rev (map (\<lambda>j. take m row ! j) [0..<m])"
    by (simp add: rev_map)
  also have "map (\<lambda>j. take m row ! j) [0..<m] = take m row"
    using m map_nth [of "take m row"] by (simp add: min_absorb2)
  finally show ?thesis .
qed

lemma rotate_row_short:
  "length row < m \<Longrightarrow> collect (\<lambda>j. py_nth row j) (rev [0..<m]) = Inl IndexError"
proof -
  assume "length row < m"
  then have "length row \<in> set (rev [0..<m])" by simp
  moreover have "py_nth row (length row) = Inl IndexError" by (simp add: py_nth_def)
  moreover have "\<And>y. py_nth row y = Inl IndexError \<or> (\<exists>z. py_nth row y = Inr z)"
    by (simp add: py_nth_def)
  ultimately show ?thesis by (rule collect_fails)
qed

lemma rotate180_wide:
  assumes "\<forall>row \<in> set g. length (hd g) \<le> length row"
  shows "rotate180 g = Inr (rev (map (\<lambda>row. rev (take (length (hd g)) row)) g))"
proof -
  let ?m = "length (hd g)"
  let ?body = "\<lambda>i. bindE (py_nth g 0) (\<lambda>row0.
          collect (\<lambda>j. bindE (py_nth g i) (\<lambda>row. py_nth row j)) (rev [0..<length row0]))"
  have body: "?body i = Inr (rev (take ?m (g ! i)))" if "i \<in> set (rev [0..<length g])" for i
  proof -
    from that have i: "i < length g" by simp
    then have g0: "py_nth g 0 = Inr (hd g)"
      by (cases g) (simp_all add: py_nth_def)
    from i assms have "?m \<le> length (g ! i)" by simp
    then have "collect (\<lambda>j. py_nth (g ! i) j) (rev [0..<?m]) = Inr (rev (take ?m (g ! i)))"
      by (rule rotate_row)
    with i g0 show ?thesis by (simp add: bindE_def py_nth_def)
  qed
  have "rotate180 g = Inr (map (\<lambda>i. rev (take ?m (g ! i))) (rev [0..<length g]))"
    unfolding rotate180_def using body by (rule collect_total)
  also have "map (\<lambda>i. rev (take ?m (g ! i))) (rev [0..<length g])
      = rev (map (\<lambda>row. rev (take ?m row)) (map (\<lambda>i. g ! i) [0..<length g]))"
    by (simp add: rev_map comp_def)
  finally show ?thesis by (simp add: map_nth)
qed

lemma rotate180_short:
  assumes "row \<in> set g" "length row < length (hd g)"
  shows "rotate180 g = Inl IndexError"
proof -
  let ?m = "length (hd g)"
  let ?body = "\<lambda>i. bindE (py_nth g 0) (\<lambda>row0.
          collect (\<lambda>j. bindE (py_nth g i) (\<lambda>row. py_nth row j)) (rev [0..<length row0]))"
  from assms(1) obtain k where k: "k < length g" "g ! k = row"
    by (auto simp: in_set_conv_nth)
  have g0: "py_nth g 0 = Inr (hd g)"
    using k(1) by (cases g) (simp_all add: py_nth_def)
  have each: "?body i = Inl IndexError \<or> (\<exists>z. ?body i = Inr z)" if "i \<in> set (rev [0..<length g])" for i
  proof -
    from that have i: "i < length g" by simp
    have eq: "?body i = collect (\<lambda>j. py_nth (g ! i) j) (rev [0..<?m])"
      using i g0 by (simp add: bindE_def py_nth_def)
    show ?thesis
    proof (cases "?m \<le> length (g ! i)")
      case True
      from rotate_row [OF this] eq show ?thesis by simp
    next
      case False
      then have "length (g ! i) < ?m" by simp
      from rotate_row_short [OF this] eq show ?thesis by simp
    qed
  qed
  have "?body k = collect (\<lambda>j. py_nth (g ! k) j) (rev [0..<?m])"
    using k(1) g0 by (simp add: bindE_def py_nth_def)
  with rotate_row_short [of "g ! k" ?m] assms(2) k(2)
  have bad: "?body k = Inl IndexError" by simp
  have "k \<in> set (rev [0..<length g])" using k(1) by simp
  then show ?thesis
    unfolding rotate180_def using bad each by (rule collect_fails)
qed

lemma rectangularD: "rectangular g \<Longrightarrow> row \<in> set g \<Longrightarrow> length row = length (hd g)"
  unfolding rectangular_def list_all_iff by blast

lemma rotate180_rectangular:
  assumes "rectangular g"
  shows "rotate180 g = Inr (rev (map rev g))"
proof -
  define m where "m = length (hd g)"
  have len: "length row = m" if "row \<in> set g" for row
    using rectangularD [OF assms that] by (simp only: m_def)
  have "\<forall>row \<in> set g. length (hd g) \<le> length row"
    using len by (simp add: m_def [symmetric])
  then have "rotate180 g = Inr (rev (map (\<lambda>row. rev (take (length (hd g)) row)) g))"
    by (rule rotate180_wide)
  moreover have "map (\<lambda>row. rev (take m row)) g = map rev g"
    using len by (intro map_cong) simp_all
  ultimately show ?thesis by (simp add: m_def [symmetric])
qed

lemma rectangular_rotated:
  assumes "rectangular g"
  shows "rectangular (rev (map rev g))"
proof (cases "g = []")
  case True
  then show ?thesis by (simp add: rectangular_def)
next
  case False
  define m where "m = length (hd g)"
  have len: "length row = m" if "row \<in> set g" for row
    using rectangularD [OF assms that] by (simp only: m_def)
  from False have "hd (rev (map rev g)) = rev (last g)"
    by (simp add: hd_rev last_map)
  moreover from False have "length (last g) = m"
    by (intro len) simp
  ultimately have m: "length (hd (rev (map rev g))) = m"
    by simp
  have "\<forall>row \<in> set (rev (map rev g)). length row = m"
    using len by auto
  then show ?thesis
    unfolding rectangular_def list_all_iff m by blast
qed

text \<open>
  Claim C2. On a file whose rows all have the same length the rotator writes the rows
  in reverse order, each with its cells in reverse order, and a second rotation of the
  file restores the content it had before the first.
\<close>

theorem rotateCSVFile180_roundtrip:
  assumes "files csvpath = Some g" and "rectangular g"
  shows "rotateCSVFile180 csvpath files = Inr (files(csvpath \<mapsto> rev (map rev g)))
       \<and> bindE (rotateCSVFile180 csvpath files) (rotateCSVFile180 csvpath) = Inr files"
proof -
  let ?files' = "files(csvpath \<mapsto> rev (map rev g))"
  have one: "rotateCSVFile180 csvpath files = Inr ?files'"
    using assms by (simp add: rotateCSVFile180_def rotate180_rectangular)
  have "rotate180 (rev (map rev g)) = Inr (rev (map rev (rev (map rev g))))"
    using assms(2) by (intro rotate180_rectangular rectangular_rotated)
  also have "rev (map rev (rev (map rev g))) = g"
    by (simp add: rev_map comp_def)
  finally have "rotateCSVFile180 csvpath ?files' = Inr (?files'(csvpath \<mapsto> g))"
    by (simp add: rotateCSVFile180_def)
  moreover have "?files'(csvpath \<mapsto> g) = files"
    using assms(1) by (simp add: map_upd_triv)
  ultimately show ?thesis using one by (simp add: bindE_def)
qed

theorem rotateCSVFile180_roundtrip_witness:
  "[''a.csv'' \<mapsto> [[''1'', ''2''], [''3'', ''4'']]] ''a.csv'' = Some [[''1'', ''2''], [''3'', ''4'']]
   \<and> rectangular [[''1'', ''2''], [''3'', ''4'']]
   \<and> rotateCSVFile180 ''a.csv'' [''a.csv'' \<mapsto> [[''1'', ''2''], [''3'', ''4'']]]
       = Inr [''a.csv'' \<mapsto> [[''4'', ''3''], [''2'', ''1'']]]
   \<and> bindE (rotateCSVFile180 ''a.csv'' [''a.csv'' \<mapsto> [[''1'', ''2''], [''3'', ''4'']]])
         (rotateCSVFile180 ''a.csv'')
       = Inr [''a.csv'' \<mapsto> [[''1'', ''2''], [''3'', ''4'']]]"
proof -
  have f: "[''a.csv'' \<mapsto> [[''1'', ''2''], [''3'', ''4'']]] ''a.csv''
             = Some [[''1'', ''2''], [''3'', ''4'']]"
    by simp
  have r: "rectangular [[''1'', ''2''], [''3'', ''4'']]"
    by (simp add: rectangular_def)
  note rotateCSVFile180_roundtrip
      [where files = "[''a.csv'' \<mapsto> [[''1'', ''2''], [''3'', ''4'']]]" and csvpath = "''a.csv''", OF f r]
  note both = this
  have "rotateCSVFile180 ''a.csv'' [''a.csv'' \<mapsto> [[''1'', ''2''], [''3'', ''4'']]]
       = Inr [''a.csv'' \<mapsto> [[''4'', ''3''], [''2'', ''1'']]]"
    using both [THEN conjunct1] by simp
  moreover have "bindE (rotateCSVFile180 ''a.csv'' [''a.csv'' \<mapsto> [[''1'', ''2''], [''3'', ''4'']]])
         (rotateCSVFile180 ''a.csv'')
       = Inr [''a.csv'' \<mapsto> [[''1'', ''2''], [''3'', ''4'']]]"
    using both [THEN conjunct2] by simp
  ultimately show ?thesis using f r
    by blast
qed

text \<open>
  Claim C7 says that the rotator completes without an index error on every grid with
  unequal row lengths. It does not: every new row is given the width of row 0, so a row
  shorter than row 0 is read past its end.
\<close>

theorem rotateCSVFile180_ragged_counterexample:
  "\<not> rectangular [[''1'', ''2''], [''3'']]
   \<and> rotateCSVFile180 ''a.csv'' [''a.csv'' \<mapsto> [[''1'', ''2''], [''3'']]] = Inl IndexError"
proof -
  have "rotate180 [[''1'', ''2''], [''3'']] = Inl IndexError"
    by (rule rotate180_short [of "[''3'']"]) simp_all
  then show ?thesis
    by (simp add: rotateCSVFile180_def rectangular_def)
qed

text \<open>
  Claim C7, amended. The rotator raises an index error exactly when some row is shorter
  than the first row. When no row is shorter than the first, the rotation completes
  also on a grid with unequal row lengths: the rows are written in reverse order, each
  cut to the length of the first row and reversed.
\<close>

theorem rotateCSVFile180_ragged:
  assumes "files csvpath = Some g"
  shows "(rotateCSVFile180 csvpath files = Inl IndexError
            \<longleftrightarrow> (\<exists>row \<in> set g. length row < length (hd g)))
       \<and> ((\<forall>row \<in> set g. length (hd g) \<le> length row) \<longrightarrow>
            rotateCSVFile180 csvpath files
              = Inr (files(csvpath \<mapsto> rev (map (\<lambda>row. rev (take (length (hd g)) row)) g))))"
proof (cases "\<exists>row \<in> set g. length row < length (hd g)")
  case True
  then obtain row where "row \<in> set g" "length row < length (hd g)" by blast
  then have "rotate180 g = Inl IndexError" by (rule rotate180_short)
  with assms have "rotateCSVFile180 csvpath files = Inl IndexError"
    by (simp add: rotateCSVFile180_def)
  with True show ?thesis by force
next
  case False
  then have wide: "\<forall>row \<in> set g. length (hd g) \<le> length row" by force
  from rotate180_wide [OF wide] assms
  have "rotateCSVFile180 csvpath files
          = Inr (files(csvpath \<mapsto> rev (map (\<lambda>row. rev (take (length (hd g)) row)) g)))"
    by (simp add: rotateCSVFile180_def)
  with False show ?thesis by simp
qed

theorem rotateCSVFile180_ragged_witness:
  "[''a.csv'' \<mapsto> [[''1''], [''2'', ''3'']]] ''a.csv'' = Some [[''1''], [''2'', ''3'']]
   \<and> \<not> rectangular [[''1''], [''2'', ''3'']]
   \<and> rotateCSVFile180 ''a.csv'' [''a.csv'' \<mapsto> [[''1''], [''2'', ''3'']]]
       = Inr [''a.csv'' \<mapsto> [[''2''], [''1'']]]"
proof -
  have f: "[''a.csv'' \<mapsto> [[''1''], [''2'', ''3'']]] ''a.csv'' = Some [[''1''], [''2'', ''3'']]"
    by simp
  from rotateCSVFile180_ragged
      [where files = "[''a.csv'' \<mapsto> [[''1''], [''2'', ''3'']]]" and csvpath = "''a.csv''", OF f]
  show ?thesis
    by (simp add: rectangular_def)
qed

section \<open>Properties of the zone statistics engine\<close>

subsection \<open>Slices with bounds that are not negative\<close>

lemma filter_between_upt: "filter (\<lambda>i. l \<le> i \<and> i < h) [0..<n] = [l..<min h n]"
proof (induction n)
  case 0
  then show ?case by simp
next
  case (Suc n)
  consider "h \<le> n" | "n < h" "l \<le> n" | "n < h" "n < l" by linarith
  then show ?case
  proof cases
    case 1
    with Suc show ?thesis by (simp add: min_absorb1)
  next
    case 2
    then have "min h n = n" "min h (Suc n) = Suc n" by simp_all
    with 2 Suc show ?thesis by simp
  next
    case 3
    then have "min h n = n" "min h (Suc n) = Suc n" by simp_all
    with 3 Suc show ?thesis by simp
  qed
qed

lemma inside_upt: "inside n a b = [nat a..<min (nat b) n]"
proof -
  have "(\<lambda>i. a \<le> int i \<and> int i < b) = (\<lambda>i. nat a \<le> i \<and> i < nat b)"
    by (intro ext) auto
  then show ?thesis unfolding inside_def by (simp only: filter_between_upt)
qed

lemma take_drop_nth_upt:
  "h \<le> length xs \<Longrightarrow> take (h - l) (drop l xs) = map (\<lambda>i. xs ! i) [l..<h]"
proof (rule nth_equalityI)
  assume h: "h \<le> length xs"
  then show "length (take (h - l) (drop l xs)) = length (map (\<lambda>i. xs ! i) [l..<h])"
    by simp
  fix i assume "i < length (take (h - l) (drop l xs))"
  with h have i: "i < h - l" by simp
  with h show "take (h - l) (drop l xs) ! i = map (\<lambda>i. xs ! i) [l..<h] ! i"
    by simp
qed

lemma np_slice_inside:
  assumes "0 \<le> a" "0 \<le> b"
  shows "np_slice xs (Some a) (Some b) = map (\<lambda>i. xs ! i) (inside (length xs) a b)"
proof -
  let ?n = "length xs"
  have lo: "slice_bound ?n a = min (nat a) ?n" and hi: "slice_bound ?n b = min (nat b) ?n"
    using assms by (simp_all add: slice_bound_def)
  show ?thesis
  proof (cases "nat a \<le> ?n")
    case True
    then have "np_slice xs (Some a) (Some b) = take (min (nat b) ?n - nat a) (drop (nat a) xs)"
      by (simp add: np_slice_def Let_def lo hi min_absorb1)
    also have "\<dots> = map (\<lambda>i. xs ! i) [nat a..<min (nat b) ?n]"
      by (rule take_drop_nth_upt) simp
    finally show ?thesis by (simp only: inside_upt)
  next
    case False
    then show ?thesis by (simp add: np_slice_def Let_def lo hi inside_upt)
  qed
qed

lemma cell_values_Some: "cell_values (map Some xs) = (if xs = [] then None else Some xs)"
  by (simp add: cell_values_def list_all_iff comp_def)

lemma np_mean_arithmetic: "np_mean (map Some xs) = over arithmetic_mean xs"
  by (simp add: np_mean_def cell_values_Some over_def mean_list_def arithmetic_mean_def)

lemma median_partitioned_median_of:
  assumes "xs \<noteq> []"
  shows "median_partitioned xs = median_of xs"
proof -
  let ?s = "sort xs" and ?n = "length xs"
  have n: "0 < ?n" using assms by simp
  show ?thesis
  proof (cases "odd ?n")
    case True
    then have m: "?n mod 2 = 1" by presburger
    have "?n div 2 < length ?s" using n by simp
    then have "take 1 (drop (?n div 2) ?s) = [?s ! (?n div 2)]"
      by (simp add: take_Suc_conv_app_nth)
    with True m show ?thesis
      by (simp add: median_partitioned_def median_of_def mean_list_def)
  next
    case False
    then have m: "?n mod 2 \<noteq> 1" by presburger
    from False n have two: "2 \<le> ?n" by presburger
    define k where "k = ?n div 2 - 1"
    from two have k: "Suc k = ?n div 2" "Suc k < length ?s" "k < length ?s"
      unfolding k_def by simp_all
    have t: "take 2 (drop k ?s) = [?s ! k, ?s ! Suc k]"
      using k(2,3)
      by (simp add: numeral_2_eq_2 take_Suc_conv_app_nth)
    have "median_partitioned xs = mean_list (take 2 (drop k ?s))"
      using m by (simp add: median_partitioned_def Let_def k_def)
    also have "\<dots> = (?s ! k + ?s ! Suc k) / 2"
      by (simp add: t mean_list_def)
    also have "\<dots> = median_of xs"
    proof -
      have a: "?n div 2 - 1 = k" by (simp add: k_def)
      have "median_of xs = (?s ! (?n div 2 - 1) + ?s ! (?n div 2)) / 2"
        using False by (simp add: median_of_def Let_def)
      then have "median_of xs = (?s ! k + ?s ! (?n div 2)) / 2"
        by (simp only: a)
      then show ?thesis
        by (simp only: k(1))
    qed
    finally show ?thesis .
  qed
qed

lemma np_median_median_of: "np_median (map Some xs) = over median_of xs"
  by (simp add: np_median_def cell_values_Some over_def median_partitioned_median_of)

lemma std_ddof_population: "std_ddof 0 xs = population_std xs"
  by (simp add: std_ddof_def population_std_def Let_def arithmetic_mean_def
      power2_eq_square comp_def)

lemma np_std_population: "np_std (map Some xs) = over population_std xs"
  by (simp add: np_std_def cell_values_Some over_def std_ddof_population)

lemma roi_clipped:
  assumes "rectangular arr" "0 \<le> rs" "0 \<le> re" "0 \<le> cs" "0 \<le> ce"
  shows "map (\<lambda>row. np_slice row (Some cs) (Some ce)) (np_slice arr (Some rs) (Some re))
           = clipped_rectangle arr rs re cs ce"
proof -
  have "map (\<lambda>row. np_slice row (Some cs) (Some ce)) (np_slice arr (Some rs) (Some re))
          = map (\<lambda>i. np_slice (arr ! i) (Some cs) (Some ce)) (inside (length arr) rs re)"
    using assms(2,3) by (simp add: np_slice_inside comp_def)
  also have "\<dots> = map (\<lambda>i. map (\<lambda>j. arr ! i ! j) (inside (length (hd arr)) cs ce))
                      (inside (length arr) rs re)"
  proof (rule map_cong [OF refl])
    fix i assume "i \<in> set (inside (length arr) rs re)"
    then have "arr ! i \<in> set arr" by (simp add: inside_def)
    then have "length (arr ! i) = length (hd arr)" using assms(1) by (simp add: rectangularD)
    then show "np_slice (arr ! i) (Some cs) (Some ce)
                = map (\<lambda>j. arr ! i ! j) (inside (length (hd arr)) cs ce)"
      using assms(4,5) by (simp add: np_slice_inside)
  qed
  finally show ?thesis by (simp add: clipped_rectangle_def)
qed

lemma getIRDataFromZone_roi:
  assumes "img \<noteq> []" "rectangular img"
    and "zone_edge positions zone_name ''_row_start'' iod = Inr (PInt rs)"
    and "zone_edge positions zone_name ''_row_end'' iod = Inr (PInt re)"
    and "zone_edge positions zone_name ''_col_start'' iod = Inr (PInt cs)"
    and "zone_edge positions zone_name ''_col_end'' iod = Inr (PInt ce)"
  shows "getIRDataFromZone img positions zone_name iod =
           (let roi = map (\<lambda>row. np_slice row (Some cs) (Some ce)) (np_slice img (Some rs) (Some re))
            in Inr (np_median (concat roi), np_mean (concat roi), np_std (concat roi)))"
  using assms by (simp add: getIRDataFromZone_def bindE_def np_array_def np_index2_def Let_def)

lemma rectangular_map: "rectangular g \<Longrightarrow> rectangular (map (map f) g)"
  by (cases g) (simp_all add: rectangular_def list_all_iff)

lemma clipped_sub_rectangle:
  fixes grid :: "'a list list"
  assumes "rectangular grid"
    and "0 \<le> rs" "re \<le> int (length grid)" "0 \<le> cs" "ce \<le> int (length (hd grid))"
  shows "clipped_rectangle (map (map f) grid) rs re cs ce
           = map (map f) (sub_rectangle grid (nat rs) (nat re) (nat cs) (nat ce))"
proof (cases "grid = []")
  case True
  with assms(3) show ?thesis
    by (simp add: clipped_rectangle_def sub_rectangle_def inside_upt)
next
  case False
  then have hd: "length (hd (map (map f) grid)) = length (hd grid)"
    by (cases grid) simp_all
  have rows: "inside (length grid) rs re = [nat rs..<nat re]"
    using assms(3) by (simp add: inside_upt min_absorb1)
  have cols: "inside (length (hd grid)) cs ce = [nat cs..<nat ce]"
    using assms(5) by (simp add: inside_upt min_absorb1)
  have "map (\<lambda>i. map (\<lambda>j. map (map f) grid ! i ! j) [nat cs..<nat ce]) [nat rs..<nat re]
      = map (\<lambda>i. map (\<lambda>j. f (grid ! i ! j)) [nat cs..<nat ce]) [nat rs..<nat re]"
  proof (intro map_cong refl)
    fix i j assume i: "i \<in> set [nat rs..<nat re]" and j: "j \<in> set [nat cs..<nat ce]"
    from i assms(3) have il: "i < length grid" by auto
    then have "grid ! i \<in> set grid" by simp
    then have "length (grid ! i) = length (hd grid)" using assms(1) by (simp add: rectangularD)
    with j assms(5) have "j < length (grid ! i)" by auto
    with il show "map (map f) grid ! i ! j = f (grid ! i ! j)" by simp
  qed
  then show ?thesis
    by (simp add: clipped_rectangle_def sub_rectangle_def hd rows cols comp_def)
qed

lemma zone1_edges:
  "zone_edge (zone1_table rs re cs ce) ''zone1'' ''_row_start'' 0 = Inr (PInt rs)"
  "zone_edge (zone1_table rs re cs ce) ''zone1'' ''_row_end'' 0 = Inr (PInt re)"
  "zone_edge (zone1_table rs re cs ce) ''zone1'' ''_col_start'' 0 = Inr (PInt cs)"
  "zone_edge (zone1_table rs re cs ce) ''zone1'' ''_col_end'' 0 = Inr (PInt ce)"
  by (simp_all add: zone1_table_def zone_edge_def dict_get_def py_item_def bindE_def)

subsection \<open>Zones inside the grid\<close>

text \<open>
  Claim C1 says that for every grid and all bounds with
  \<open>row_start \<le> row_end \<le> rows\<close> and \<open>col_start \<le> col_end \<le> columns\<close> the engine
  returns the statistics of exactly the cells with \<open>row_start \<le> i < row_end\<close> and
  \<open>col_start \<le> j < col_end\<close>. Two inputs within these bounds show otherwise. On the
  grid without rows, with all four bounds 0, the engine raises an index error and
  returns nothing. On the grid \<open>[[1], [2], [3]]\<close> with rows \<open>-1 \<le> i < 2\<close> and
  columns \<open>0 \<le> j < 1\<close> the engine answers NaN three times, since a negative start
  counts from the end and selects nothing here, whereas the cells of the grid within
  those bounds are 1 and 2, of mean \<open>3/2\<close>.
\<close>

theorem getIRDataFromZone_sub_rectangle_counterexample:
  "getIRDataFromZone [] (zone1_table 0 0 0 0) ''zone1'' 0 = Inl IndexError
   \<and> getIRDataFromZone (map (map Some) [[1], [2], [3]]) (zone1_table (- 1) 2 0 1) ''zone1'' 0
       = Inr (None, None, None)
   \<and> over arithmetic_mean (concat (clipped_rectangle [[1], [2], [3]] (- 1) 2 0 1)) = Some (3 / 2)"
  by (simp add: getIRDataFromZone_def zone1_edges bindE_def np_array_def np_index2_def
      rectangular_def np_slice_def slice_bound_def np_median_def np_mean_def np_std_def
      cell_values_def over_def arithmetic_mean_def clipped_rectangle_def inside_def upt_rec)

text \<open>
  Claim C1, amended. For every numeric grid with at least one row, all rows of one
  length, and every zone whose bounds in the selected calibration row are integers with
  \<open>0 \<le> row_start \<le> row_end \<le> rows\<close> and \<open>0 \<le> col_start \<le> col_end \<le> columns\<close>, the
  engine returns the median, the arithmetic mean and the population standard deviation
  (denominator \<open>N\<close>) of exactly the cells of the sub-rectangle
  \<open>[row_start:row_end, col_start:col_end]\<close>, end-exclusive, in row-major order; the
  three are NaN when the sub-rectangle has no cell.
\<close>

theorem getIRDataFromZone_sub_rectangle:
  fixes grid :: "real list list"
  assumes "grid \<noteq> []" "rectangular grid"
    and "zone_edge positions zone_name ''_row_start'' iod = Inr (PInt rs)"
    and "zone_edge positions zone_name ''_row_end'' iod = Inr (PInt re)"
    and "zone_edge positions zone_name ''_col_start'' iod = Inr (PInt cs)"
    and "zone_edge positions zone_name ''_col_end'' iod = Inr (PInt ce)"
    and "0 \<le> rs" "rs \<le> re" "re \<le> int (length grid)"
    and "0 \<le> cs" "cs \<le> ce" "ce \<le> int (length (hd grid))"
  shows "getIRDataFromZone (map (map Some) grid) positions zone_name iod =
           (let roi = concat (sub_rectangle grid (nat rs) (nat re) (nat cs) (nat ce))
            in Inr (over median_of roi, over arithmetic_mean roi, over population_std roi))"
proof -
  let ?img = "map (map Some) grid"
  let ?roi = "concat (sub_rectangle grid (nat rs) (nat re) (nat cs) (nat ce))"
  have img: "?img \<noteq> []" "rectangular ?img"
    using assms(1,2) by (simp_all add: rectangular_map)
  have "map (\<lambda>row. np_slice row (Some cs) (Some ce)) (np_slice ?img (Some rs) (Some re))
          = clipped_rectangle ?img rs re cs ce"
    using img(2) assms(7-12) by (intro roi_clipped) simp_all
  also have "\<dots> = map (map Some) (sub_rectangle grid (nat rs) (nat re) (nat cs) (nat ce))"
    using assms(2,7,9,10,12) by (rule clipped_sub_rectangle)
  finally have "getIRDataFromZone ?img positions zone_name iod
      = Inr (np_median (map Some ?roi), np_mean (map Some ?roi), np_std (map Some ?roi))"
    using getIRDataFromZone_roi [OF img assms(3-6)] by (simp add: Let_def map_concat)
  then show ?thesis
    by (simp only: Let_def np_median_median_of np_mean_arithmetic np_std_population)
qed

theorem getIRDataFromZone_sub_rectangle_witness:
  "getIRDataFromZone (map (map Some) [[5, 5, 5], [5, 5, 5], [5, 5, 5]])
     (zone1_table 0 2 0 2) ''zone1'' 0 = Inr (Some 5, Some 5, Some 0)"
proof -
  have "sub_rectangle [[5, 5, 5], [5, 5, 5], [5, 5, 5::real]] 0 2 0 2 = [[5, 5], [5, 5]]"
    by (simp add: sub_rectangle_def upt_rec)
  with getIRDataFromZone_sub_rectangle
      [of "[[5, 5, 5], [5, 5, 5], [5, 5, 5]]" "zone1_table 0 2 0 2" "''zone1''" 0 0 2 0 2]
  show ?thesis
    by (simp add: zone1_edges rectangular_def over_def median_of_def arithmetic_mean_def
        population_std_def)
qed

subsection \<open>Zones reaching beyond the grid\<close>

text \<open>
  Claim C10 says that for bounds exceeding the grid the statistics are those of the
  intersection of the requested rectangle with the grid. With a negative start this
  fails: on the grid \<open>[[1], [2], [3]]\<close> with rows \<open>-1 \<le> i < 10\<close> (the end exceeds the
  three rows) and columns \<open>0 \<le> j < 1\<close> the engine reads the last row only and answers
  median 3, mean 3, deviation 0, whereas the intersection of the requested rectangle
  with the grid is the whole grid, of mean 2.
\<close>

theorem getIRDataFromZone_clips_counterexample:
  "getIRDataFromZone (map (map Some) [[1], [2], [3]]) (zone1_table (- 1) 10 0 1) ''zone1'' 0
       = Inr (Some 3, Some 3, Some 0)
   \<and> np_mean (concat (clipped_rectangle (map (map Some) [[1], [2], [3]]) (- 1) 10 0 1)) = Some 2"
  by (simp add: getIRDataFromZone_def zone1_edges bindE_def np_array_def np_index2_def
      rectangular_def np_slice_def slice_bound_def np_median_def np_mean_def np_std_def
      cell_values_def clipped_rectangle_def inside_def upt_rec
      median_partitioned_def mean_list_def std_ddof_def)

text \<open>
  Claim C10, amended. For every grid with at least one row, all rows of one length,
  and every zone whose four bounds in the selected calibration row are integers, the
  engine does not fail: it returns three statistics. When moreover the four bounds
  are not negative, however far they exceed the grid, the statistics are those of the
  cells of the grid with \<open>row_start \<le> i < row_end\<close> and \<open>col_start \<le> j < col_end\<close>,
  the intersection of the requested rectangle with the grid.
\<close>

theorem getIRDataFromZone_clips:
  assumes "img \<noteq> []" "rectangular img"
    and "zone_edge positions zone_name ''_row_start'' iod = Inr (PInt rs)"
    and "zone_edge positions zone_name ''_row_end'' iod = Inr (PInt re)"
    and "zone_edge positions zone_name ''_col_start'' iod = Inr (PInt cs)"
    and "zone_edge positions zone_name ''_col_end'' iod = Inr (PInt ce)"
  shows "(\<exists>stats. getIRDataFromZone img positions zone_name iod = Inr stats)
       \<and> (0 \<le> rs \<and> 0 \<le> re \<and> 0 \<le> cs \<and> 0 \<le> ce \<longrightarrow>
            getIRDataFromZone img positions zone_name iod =
              (let roi = concat (clipped_rectangle img rs re cs ce)
               in Inr (np_median roi, np_mean roi, np_std roi)))"
  using getIRDataFromZone_roi [OF assms] assms(2)
  by (simp add: Let_def roi_clipped)

theorem getIRDataFromZone_clips_witness:
  "getIRDataFromZone [[Some 1, Some 2], [Some 3, None]]
     (zone1_table 1 5 0 1) ''zone1'' 0 = Inr (Some 3, Some 3, Some 0)"
proof -
  have "clipped_rectangle [[Some 1, Some 2], [Some 3, None::cell]] 1 5 0 1 = [[Some 3]]"
    by (simp add: clipped_rectangle_def inside_def upt_rec)
  with getIRDataFromZone_clips
      [of "[[Some 1, Some 2], [Some 3, None]]" "zone1_table 1 5 0 1" "''zone1''" 0 1 5 0 1]
  show ?thesis
    by (simp add: zone1_edges rectangular_def np_median_def np_mean_def np_std_def
        cell_values_def median_partitioned_def mean_list_def std_ddof_def)
qed

section \<open>Properties of the frame aggregator\<close>

subsection \<open>The example inputs evaluated\<close>

lemma ex_filename: "basename (normpath ex_path) = ''ir_export_20170815_P0000004_005_10-50-08.csv''"
  by (simp add: ex_path_def normpath_def basename_def norm_step_def)

lemma ex_info:
  "getFileInfo (basename (normpath ex_path)) = (''20170815'', ''10-50-08'', ''P0000004'', ''005'')"
  by (simp add: ex_filename getFileInfo_def py_slice_def slice_bound_def)

lemma ex_loader:
  "getPositionInformation [''positions.csv'' \<mapsto> ex_calibration] ''positions.csv''
     = Inr (zone1_table 0 2 0 2, 1)"
  by (simp add: getPositionInformation_def ex_calibration_def DictReader_def dict_row_def
      setdefault_append_def py_int_def strip_def is_space_def is_digit_def bindE_def zone1_table_def)

lemma ex_image: "values_tolist (dropna_all ex_frame) = [[Some 5, Some 5], [Some 5, Some 5]]"
  by (simp add: values_tolist_def dropna_all_def ex_frame_def upt_rec)

lemma ex_stats:
  "getIRDataFromZone [[Some 5, Some 5], [Some 5, Some 5]] (zone1_table 0 2 0 2) ''zone1'' 0
     = Inr (Some 5, Some 5, Some 0)"
  by (simp add: getIRDataFromZone_def zone1_edges bindE_def np_array_def np_index2_def
      rectangular_def np_slice_def slice_bound_def np_median_def np_mean_def np_std_def
      cell_values_def median_partitioned_def mean_list_def std_ddof_def)

lemma ex_record:
  "getIRDataFromMultipleZones [ex_path \<mapsto> ex_frame] ex_path (zone1_table 0 2 0 2) (ZoneList [''zone1''])
     = (zone1_table 0 2 0 2,
        Inr [[(''ir_date'', DStr ''20170815''), (''ir_time'', DStr ''10-50-08''),
              (''ir_folder'', DStr ''P0000004''), (''ir_filenumber'', DStr ''005''),
              (''ir_zone1_med'', DNum (Some 5)), (''ir_zone1_mean'', DNum (Some 5)),
              (''ir_zone1_std'', DNum (Some 0))]])"
proof -
  have pos: "AList.update ''measurement'' (map PStr (map py_str [PStr ''20170815''])) (zone1_table 0 2 0 2)
               = zone1_table 0 2 0 2"
    by (simp add: zone1_table_def)
  have m: "dict_get (zone1_table 0 2 0 2) ''measurement'' = Inr [PStr ''20170815'']"
    by (simp add: dict_get_def zone1_table_def)
  show ?thesis
    unfolding getIRDataFromMultipleZones_def Let_def ex_info prod.case m sum.case pos
    by (simp add: bindE_def read_csv_def ex_image ex_stats put_zone_def pd_DataFrame_def
        column_lengths_def table_row_def)
qed

subsection \<open>The calibration table is left as it was\<close>

lemma str_roundtrip:
  "list_all (\<lambda>v. case v of PStr s \<Rightarrow> True | _ \<Rightarrow> False) column \<Longrightarrow> map PStr (map py_str column) = column"
  by (induction column) (auto split: pyval.splits)

lemma fst_getIRDataFromMultipleZones:
  "fst (getIRDataFromMultipleZones frames csvpath positions zone_list) =
     (case map_of positions ''measurement'' of
        None \<Rightarrow> positions
      | Some column \<Rightarrow> AList.update ''measurement'' (map PStr (map py_str column)) positions)"
  by (simp add: getIRDataFromMultipleZones_def dict_get_def Let_def split: prod.splits option.splits)

text \<open>
  Claim C9. When the entries of the \<^verbatim>\<open>measurement\<close> column are strings, processing
  a frame file leaves the calibration table as it was, whatever the result or the
  exception of the call: the column is overwritten by the strings of its entries,
  which are the entries themselves. The same table therefore serves every file of a
  batch.
\<close>

theorem getIRDataFromMultipleZones_keeps_table:
  assumes "string_entries positions"
  shows "fst (getIRDataFromMultipleZones frames csvpath positions zone_list) = positions"
proof (cases "map_of positions ''measurement''")
  case None
  then show ?thesis by (simp add: fst_getIRDataFromMultipleZones)
next
  case (Some column)
  with assms have "map PStr (map py_str column) = column"
    by (simp only: string_entries_def option.case str_roundtrip)
  with Some show ?thesis
    by (simp add: fst_getIRDataFromMultipleZones update_triv)
qed

theorem getIRDataFromMultipleZones_keeps_table_witness:
  "string_entries (zone1_table 0 2 0 2)
   \<and> fst (getIRDataFromMultipleZones [ex_path \<mapsto> ex_frame] ex_path (zone1_table 0 2 0 2)
            (ZoneList [''zone1''])) = zone1_table 0 2 0 2"
proof -
  have s: "string_entries (zone1_table 0 2 0 2)"
    by (simp add: string_entries_def zone1_table_def)
  from getIRDataFromMultipleZones_keeps_table [OF s] s show ?thesis by blast
qed

subsection \<open>Columns that are empty on every row\<close>

lemma dropna_all_trailing:
  "dropna_all (df\<lparr>columns := columns df @ [(label, replicate n None)]\<rparr>) = dropna_all df"
  by (simp add: dropna_all_def)

text \<open>
  Claim C8. A frame with one more, trailing column that is empty on every row gives
  the same result, and so the same statistics for every zone and all bounds, as the
  frame without that column: the aggregator drops the column before it slices.
\<close>

theorem getIRDataFromMultipleZones_empty_column:
  assumes "frames_a csvpath = Some (df\<lparr>columns := columns df @ [(label, replicate (nrows df) None)]\<rparr>)"
    and "frames_b csvpath = Some df"
  shows "getIRDataFromMultipleZones frames_a csvpath positions zone_list
       = getIRDataFromMultipleZones frames_b csvpath positions zone_list"
  using assms
  by (simp add: getIRDataFromMultipleZones_def read_csv_def bindE_def dropna_all_trailing Let_def
      split: prod.splits sum.splits)

theorem getIRDataFromMultipleZones_empty_column_witness:
  "getIRDataFromMultipleZones [ex_path \<mapsto> ex_frame] ex_path (zone1_table 0 2 0 2) (ZoneList [''zone1''])
     = getIRDataFromMultipleZones [ex_path \<mapsto> ex_trimmed] ex_path (zone1_table 0 2 0 2) (ZoneList [''zone1''])"
proof -
  have f1: "[ex_path \<mapsto> ex_frame] ex_path
      = Some (ex_trimmed\<lparr>columns := columns ex_trimmed @ [(''Unnamed: 2'', replicate (nrows ex_trimmed) None)]\<rparr>)"
    by (simp add: ex_frame_def ex_trimmed_def numeral_2_eq_2)
  have f2: "[ex_path \<mapsto> ex_trimmed] ex_path = Some ex_trimmed"
    by simp
  show ?thesis
    by (rule getIRDataFromMultipleZones_empty_column [where frames_a = "[ex_path \<mapsto> ex_frame]" and frames_b = "[ex_path \<mapsto> ex_trimmed]",
          OF f1 f2])
qed

subsection \<open>The calibration lookup\<close>

lemma py_index_absent: "x \<notin> set xs \<Longrightarrow> py_index xs x = Inl ValueError_not_in_list"
  by (induction xs) auto

lemma py_index_first:
  "x \<in> set xs \<Longrightarrow>
     \<exists>i. py_index xs x = Inr i \<and> i < length xs \<and> xs ! i = x \<and> (\<forall>j<i. xs ! j \<noteq> x)"
proof (induction xs)
  case Nil
  then show ?case by simp
next
  case (Cons y ys)
  show ?case
  proof (cases "y = x")
    case True
    then show ?thesis by simp
  next
    case False
    with Cons.prems have "x \<in> set ys" by simp
    with Cons.IH obtain i where i: "py_index ys x = Inr i" "i < length ys" "ys ! i = x"
      "\<forall>j<i. ys ! j \<noteq> x" by blast
    have "\<forall>j<Suc i. (y # ys) ! j \<noteq> x"
    proof (intro allI impI)
      fix j assume "j < Suc i"
      with False i(4) show "(y # ys) ! j \<noteq> x" by (cases j) auto
    qed
    with False i(1-3) show ?thesis by simp
  qed
qed

lemma bindE_not:
  "m \<noteq> Inl e \<Longrightarrow> (\<And>x. f x \<noteq> Inl e) \<Longrightarrow> bindE m f \<noteq> Inl e"
  by (cases m) (simp_all add: bindE_def)

lemma zone_edge_not_absent: "zone_edge positions zone suffix iod \<noteq> Inl ValueError_not_in_list"
  by (simp add: zone_edge_def bindE_def dict_get_def py_item_def split: option.splits)

lemma slice_index_not_absent: "slice_index e \<noteq> Inl ValueError_not_in_list"
  by (cases e) simp_all

lemma getIRDataFromZone_not_absent:
  "getIRDataFromZone img positions zone iod \<noteq> Inl ValueError_not_in_list"
  unfolding getIRDataFromZone_def np_index2_def
  by (intro bindE_not zone_edge_not_absent slice_index_not_absent)
     (simp_all add: np_array_def Let_def)

lemma add_zones_not_absent:
  "add_zones img positions iod zones d \<noteq> Inl ValueError_not_in_list"
proof (induction zones arbitrary: d)
  case Nil
  show ?case by simp
next
  case (Cons zone zones)
  show ?case
  proof (cases "getIRDataFromZone img positions zone iod")
    case (Inl e)
    with getIRDataFromZone_not_absent [of img positions zone iod] show ?thesis by simp
  next
    case (Inr ir_data)
    with Cons.IH show ?thesis by simp
  qed
qed

lemma pd_DataFrame_not_absent: "pd_DataFrame d \<noteq> Inl ValueError_not_in_list"
  by (simp add: pd_DataFrame_def split: list.splits)

lemma after_lookup_not_absent:
  "bindE (read_csv frames csvpath) (\<lambda>df0.
     bindE (iterate zone_list) (\<lambda>zones.
       bindE (add_zones (g df0) positions iod zones (d0 df0)) pd_DataFrame))
   \<noteq> Inl ValueError_not_in_list"
proof (intro bindE_not)
  show "read_csv frames csvpath \<noteq> Inl ValueError_not_in_list"
    by (simp add: read_csv_def split: option.splits)
  show "iterate zone_list \<noteq> Inl ValueError_not_in_list"
    by (cases zone_list) simp_all
qed (simp_all add: add_zones_not_absent pd_DataFrame_not_absent)

lemma snd_getIRDataFromMultipleZones:
  assumes "map_of positions ''measurement'' = Some column"
  shows "snd (getIRDataFromMultipleZones frames csvpath positions zone_list) =
     (case getFileInfo (basename (normpath csvpath)) of (date, time, folder, filenumber) \<Rightarrow>
        bindE (py_index (map py_str column) date) (\<lambda>indexOfDataset.
        bindE (read_csv frames csvpath) (\<lambda>df0.
        bindE (iterate zone_list) (\<lambda>zones.
        bindE (add_zones (values_tolist (dropna_all df0))
                 (AList.update ''measurement'' (map PStr (map py_str column)) positions)
                 (int indexOfDataset) zones
                 [(''ir_date'', Scalar date), (''ir_time'', Scalar time),
                  (''ir_folder'', Scalar folder), (''ir_filenumber'', Scalar filenumber)])
          pd_DataFrame))))"
  using assms
  by (simp add: getIRDataFromMultipleZones_def dict_get_def Let_def split: prod.splits)

lemma zone_key_not_measurement:
  "zone @ ''_row_start'' \<noteq> ''measurement''" "zone @ ''_row_end'' \<noteq> ''measurement''"
  "zone @ ''_col_start'' \<noteq> ''measurement''" "zone @ ''_col_end'' \<noteq> ''measurement''"
proof -
  have r: "rev a \<noteq> rev b \<Longrightarrow> a \<noteq> b" for a b :: string by auto
  show "zone @ ''_row_start'' \<noteq> ''measurement''" by (rule r) simp
  show "zone @ ''_row_end'' \<noteq> ''measurement''" by (rule r) simp
  show "zone @ ''_col_start'' \<noteq> ''measurement''" by (rule r) simp
  show "zone @ ''_col_end'' \<noteq> ''measurement''" by (rule r) simp
qed

lemma zone_edge_no_measurement_key:
  "zone @ suffix \<noteq> ''measurement'' \<Longrightarrow>
     zone_edge positions zone suffix iod \<noteq> Inl (KeyError ''measurement'')"
  by (simp add: zone_edge_def bindE_def dict_get_def py_item_def split: option.splits)

lemma slice_index_no_measurement_key: "slice_index e \<noteq> Inl (KeyError ''measurement'')"
  by (cases e) simp_all

lemma getIRDataFromZone_no_measurement_key:
  "getIRDataFromZone img positions zone iod \<noteq> Inl (KeyError ''measurement'')"
  unfolding getIRDataFromZone_def np_index2_def
  by (intro bindE_not zone_edge_no_measurement_key zone_key_not_measurement
        slice_index_no_measurement_key)
     (simp_all add: np_array_def Let_def)

lemma add_zones_no_measurement_key:
  "add_zones img positions iod zones d \<noteq> Inl (KeyError ''measurement'')"
proof (induction zones arbitrary: d)
  case Nil
  show ?case by simp
next
  case (Cons zone zones)
  show ?case
  proof (cases "getIRDataFromZone img positions zone iod")
    case (Inl e)
    with getIRDataFromZone_no_measurement_key [of img positions zone iod] show ?thesis by simp
  next
    case (Inr ir_data)
    with Cons.IH show ?thesis by simp
  qed
qed

lemma record_of_row_not_lookup_failed:
  "\<not> lookup_failed (record_of_row frames csvpath positions zone_list iod)"
proof -
  obtain date time folder filenumber
    where info: "getFileInfo (basename (normpath csvpath)) = (date, time, folder, filenumber)"
    by (cases "getFileInfo (basename (normpath csvpath))") auto
  have a: "record_of_row frames csvpath positions zone_list iod \<noteq> Inl ValueError_not_in_list"
    unfolding record_of_row_def info prod.case Let_def
    by (rule after_lookup_not_absent)
  have b: "record_of_row frames csvpath positions zone_list iod \<noteq> Inl (KeyError ''measurement'')"
    unfolding record_of_row_def info prod.case Let_def
  proof (intro bindE_not)
    show "read_csv frames csvpath \<noteq> Inl (KeyError ''measurement'')"
      by (simp add: read_csv_def split: option.splits)
    show "iterate zone_list \<noteq> Inl (KeyError ''measurement'')"
      by (cases zone_list) simp_all
  qed (simp_all add: add_zones_no_measurement_key pd_DataFrame_def split: list.splits)
  from a b show ?thesis by (simp add: lookup_failed_def)
qed

lemma getIRDataFromMultipleZones_no_column:
  "map_of positions ''measurement'' = None \<Longrightarrow>
     getIRDataFromMultipleZones frames csvpath positions zone_list
       = (positions, Inl (KeyError ''measurement''))"
  by (simp add: getIRDataFromMultipleZones_def dict_get_def Let_def split: prod.splits)

lemma getIRDataFromMultipleZones_column:
  assumes "map_of positions ''measurement'' = Some column"
  shows "getIRDataFromMultipleZones frames csvpath positions zone_list =
     (AList.update ''measurement'' (map PStr (map py_str column)) positions,
      bindE (py_index (map py_str column) (fst (getFileInfo (basename (normpath csvpath)))))
        (\<lambda>i. record_of_row frames csvpath
                (AList.update ''measurement'' (map PStr (map py_str column)) positions)
                zone_list (int i)))"
  using assms
  by (simp add: getIRDataFromMultipleZones_def record_of_row_def dict_get_def Let_def
      split: prod.splits)

lemma dup_entries: "measurement_entries dup_table = [''20170814'', ''20170815'', ''20170815'']"
  by (simp add: measurement_entries_def dup_table_def)

lemma dup_edges:
  "zone_edge dup_table ''zone1'' ''_row_start'' 1 = Inr (PInt 1)"
  "zone_edge dup_table ''zone1'' ''_row_end'' 1 = Inr (PInt 2)"
  "zone_edge dup_table ''zone1'' ''_col_start'' 1 = Inr (PInt 0)"
  "zone_edge dup_table ''zone1'' ''_col_end'' 1 = Inr (PInt 1)"
  by (simp_all add: dup_table_def zone_edge_def dict_get_def py_item_def bindE_def)

lemma gradient_image: "values_tolist (dropna_all ex_gradient) = [[Some 1, Some 2], [Some 3, Some 4]]"
  by (simp add: values_tolist_def dropna_all_def ex_gradient_def upt_rec)

lemma dup_stats:
  "getIRDataFromZone [[Some 1, Some 2], [Some 3, Some 4]] dup_table ''zone1'' 1
     = Inr (Some 3, Some 3, Some 0)"
  by (simp add: getIRDataFromZone_def dup_edges bindE_def np_array_def np_index2_def
      rectangular_def np_slice_def slice_bound_def np_median_def np_mean_def np_std_def
      cell_values_def median_partitioned_def mean_list_def std_ddof_def)

lemma dup_row:
  "record_of_row [ex_path \<mapsto> ex_gradient] ex_path dup_table (ZoneList [''zone1'']) 1
     = Inr [[(''ir_date'', DStr ''20170815''), (''ir_time'', DStr ''10-50-08''),
             (''ir_folder'', DStr ''P0000004''), (''ir_filenumber'', DStr ''005''),
             (''ir_zone1_med'', DNum (Some 3)), (''ir_zone1_mean'', DNum (Some 3)),
             (''ir_zone1_std'', DNum (Some 0))]]"
  unfolding record_of_row_def Let_def ex_info prod.case
  by (simp add: bindE_def read_csv_def gradient_image dup_stats put_zone_def pd_DataFrame_def
      column_lengths_def table_row_def)

lemma dup_record:
  "getIRDataFromMultipleZones [ex_path \<mapsto> ex_gradient] ex_path dup_table (ZoneList [''zone1''])
     = (dup_table,
        Inr [[(''ir_date'', DStr ''20170815''), (''ir_time'', DStr ''10-50-08''),
              (''ir_folder'', DStr ''P0000004''), (''ir_filenumber'', DStr ''005''),
              (''ir_zone1_med'', DNum (Some 3)), (''ir_zone1_mean'', DNum (Some 3)),
              (''ir_zone1_std'', DNum (Some 0))]])"
proof -
  have m: "map_of dup_table ''measurement''
             = Some [PStr ''20170814'', PStr ''20170815'', PStr ''20170815'']"
    by (simp add: dup_table_def)
  have pos: "AList.update ''measurement''
               (map PStr (map py_str [PStr ''20170814'', PStr ''20170815'', PStr ''20170815'']))
               dup_table = dup_table"
    by (simp add: dup_table_def)
  show ?thesis
    unfolding getIRDataFromMultipleZones_column [OF m] pos
    by (simp add: ex_info bindE_def dup_row)
qed

text \<open>
  Claim C4. For every calibration table and every frame file, the calibration lookup
  fails exactly when the date decoded from the file name is not in the measurement
  list of the table, and the aggregator then returns no record: the failure is the
  \<^verbatim>\<open>ValueError\<close> of \<^verbatim>\<open>.index(date)\<close>, "value not found", or, on a table without a
  \<^verbatim>\<open>measurement\<close> column, the \<^verbatim>\<open>KeyError\<close> of \<^verbatim>\<open>positions["measurement"]\<close>. When the
  date is in the list, once or more often, the aggregator goes on with the index of
  the first entry that equals the date: its result is the one it builds for that
  calibration row.
\<close>

theorem getIRDataFromMultipleZones_lookup:
  "(lookup_failed (snd (getIRDataFromMultipleZones frames csvpath positions zone_list))
      \<longleftrightarrow> fst (getFileInfo (basename (normpath csvpath))) \<notin> set (measurement_entries positions))
   \<and> (fst (getFileInfo (basename (normpath csvpath))) \<in> set (measurement_entries positions) \<longrightarrow>
        (\<exists>i < length (measurement_entries positions).
            measurement_entries positions ! i = fst (getFileInfo (basename (normpath csvpath)))
          \<and> (\<forall>j<i. measurement_entries positions ! j
                      \<noteq> fst (getFileInfo (basename (normpath csvpath))))
          \<and> snd (getIRDataFromMultipleZones frames csvpath positions zone_list)
              = record_of_row frames csvpath
                  (fst (getIRDataFromMultipleZones frames csvpath positions zone_list))
                  zone_list (int i)))"
proof (cases "map_of positions ''measurement''")
  case None
  then show ?thesis
    by (simp add: getIRDataFromMultipleZones_no_column measurement_entries_def lookup_failed_def)
next
  case (Some column)
  let ?date = "fst (getFileInfo (basename (normpath csvpath)))"
  let ?ms = "map py_str column"
  let ?positions' = "AList.update ''measurement'' (map PStr ?ms) positions"
  have ms: "measurement_entries positions = ?ms"
    using Some by (simp add: measurement_entries_def)
  note res = getIRDataFromMultipleZones_column [OF Some, of frames csvpath zone_list]
  show ?thesis
  proof (cases "?date \<in> set ?ms")
    case False
    then have "py_index ?ms ?date = Inl ValueError_not_in_list" by (rule py_index_absent)
    with False show ?thesis
      by (simp add: res ms bindE_def lookup_failed_def)
  next
    case True
    from py_index_first [OF True] obtain i where
      i: "py_index ?ms ?date = Inr i" "i < length ?ms" "?ms ! i = ?date" "\<forall>j<i. ?ms ! j \<noteq> ?date"
      by blast
    have s: "snd (getIRDataFromMultipleZones frames csvpath positions zone_list)
               = record_of_row frames csvpath ?positions' zone_list (int i)"
      and f: "fst (getIRDataFromMultipleZones frames csvpath positions zone_list) = ?positions'"
      using i(1) by (simp_all add: res bindE_def)
    have "\<not> lookup_failed (snd (getIRDataFromMultipleZones frames csvpath positions zone_list))"
      unfolding s by (rule record_of_row_not_lookup_failed)
    moreover have "\<exists>i < length ?ms. ?ms ! i = ?date \<and> (\<forall>j<i. ?ms ! j \<noteq> ?date)
          \<and> snd (getIRDataFromMultipleZones frames csvpath positions zone_list)
              = record_of_row frames csvpath
                  (fst (getIRDataFromMultipleZones frames csvpath positions zone_list))
                  zone_list (int i)"
      using i(2-4) s f by (intro exI [of _ i]) simp
    ultimately show ?thesis using True by (simp only: ms) blast
  qed
qed

theorem getIRDataFromMultipleZones_lookup_witness:
  "fst (getFileInfo (basename (normpath ex_path))) \<in> set (measurement_entries dup_table)
   \<and> \<not> lookup_failed (snd (getIRDataFromMultipleZones [ex_path \<mapsto> ex_gradient] ex_path dup_table
                              (ZoneList [''zone1''])))
   \<and> snd (getIRDataFromMultipleZones [ex_path \<mapsto> ex_gradient] ex_path dup_table
             (ZoneList [''zone1'']))
       = record_of_row [ex_path \<mapsto> ex_gradient] ex_path dup_table (ZoneList [''zone1'']) 1"
proof -
  let ?R = "getIRDataFromMultipleZones [ex_path \<mapsto> ex_gradient] ex_path dup_table
              (ZoneList [''zone1''])"
  let ?date = "fst (getFileInfo (basename (normpath ex_path)))"
  have d: "?date \<in> set (measurement_entries dup_table)"
    by (simp add: ex_info dup_entries)
  note t = getIRDataFromMultipleZones_lookup [of "[ex_path \<mapsto> ex_gradient]" ex_path dup_table "ZoneList [''zone1'']"]
  from t d have nf: "\<not> lookup_failed (snd ?R)" by blast
  from t d obtain i where i: "i < length (measurement_entries dup_table)"
    "measurement_entries dup_table ! i = ?date"
    "\<forall>j<i. measurement_entries dup_table ! j \<noteq> ?date"
    "snd ?R = record_of_row [ex_path \<mapsto> ex_gradient] ex_path (fst ?R) (ZoneList [''zone1'']) (int i)"
    by blast
  from i(1) have "i = 0 \<or> i = 1 \<or> i = 2" by (auto simp: dup_entries)
  moreover have "i \<noteq> 0"
  proof
    assume "i = 0"
    with i(2) show False by (simp add: dup_entries ex_info)
  qed
  moreover have "i \<noteq> 2"
  proof
    assume "i = 2"
    with i(3) have "measurement_entries dup_table ! 1 \<noteq> ?date" by simp
    then show False by (simp add: dup_entries ex_info)
  qed
  ultimately have "i = 1" by blast
  with i(4) have "snd ?R = record_of_row [ex_path \<mapsto> ex_gradient] ex_path (fst ?R)
                      (ZoneList [''zone1'']) 1"
    by simp
  moreover have "fst ?R = dup_table" by (simp add: dup_record)
  ultimately show ?thesis using d nf by simp
qed

subsection \<open>The names of the statistic columns\<close>

lemma suffix_neq:
  "z @ ''_med'' \<noteq> z' @ ''_mean''" "z @ ''_med'' \<noteq> z' @ ''_std''"
  "z @ ''_mean'' \<noteq> z' @ ''_med''" "z @ ''_mean'' \<noteq> z' @ ''_std''"
  "z @ ''_std'' \<noteq> z' @ ''_med''" "z @ ''_std'' \<noteq> z' @ ''_mean''"
proof -
  have r: "rev a \<noteq> rev b \<Longrightarrow> a \<noteq> b" for a b :: string by auto
  show "z @ ''_med'' \<noteq> z' @ ''_mean''" by (rule r) simp
  show "z @ ''_med'' \<noteq> z' @ ''_std''" by (rule r) simp
  show "z @ ''_mean'' \<noteq> z' @ ''_med''" by (rule r) simp
  show "z @ ''_mean'' \<noteq> z' @ ''_std''" by (rule r) simp
  show "z @ ''_std'' \<noteq> z' @ ''_med''" by (rule r) simp
  show "z @ ''_std'' \<noteq> z' @ ''_mean''" by (rule r) simp
qed

lemma map_of_put_zone:
  "map_of (put_zone z (med, mean, std) d) =
     (map_of d)(''ir_'' @ z @ ''_med'' \<mapsto> Column [med], ''ir_'' @ z @ ''_mean'' \<mapsto> Column [mean],
                ''ir_'' @ z @ ''_std'' \<mapsto> Column [std])"
  by (simp add: put_zone_def update_conv')

lemma put_zone_self: "recorded (put_zone z ir_data d) z ir_data"
  by (cases ir_data) (simp add: recorded_def map_of_put_zone suffix_neq)

lemma put_zone_other: "z' \<noteq> z \<Longrightarrow> recorded d z ir_data \<Longrightarrow> recorded (put_zone z' r d) z ir_data"
  by (cases ir_data; cases r) (simp add: recorded_def map_of_put_zone suffix_neq)

lemma add_zones_keeps:
  "add_zones img positions iod zones d = Inr d' \<Longrightarrow>
   getIRDataFromZone img positions zone iod = Inr ir_data \<Longrightarrow>
   recorded d zone ir_data \<Longrightarrow> recorded d' zone ir_data"
proof (induction zones arbitrary: d)
  case Nil
  then show ?case by simp
next
  case (Cons z zones)
  from Cons.prems(1) obtain r where r: "getIRDataFromZone img positions z iod = Inr r"
    and rest: "add_zones img positions iod zones (put_zone z r d) = Inr d'"
    by (auto split: sum.splits)
  have "recorded (put_zone z r d) zone ir_data"
  proof (cases "z = zone")
    case True
    with r Cons.prems(2) have "r = ir_data" by simp
    with True show ?thesis by (simp add: put_zone_self)
  next
    case False
    with Cons.prems(3) show ?thesis by (simp add: put_zone_other)
  qed
  with Cons.IH [OF rest Cons.prems(2)] show ?case .
qed

lemma add_zones_records:
  "add_zones img positions iod zones d = Inr d' \<Longrightarrow> zone \<in> set zones \<Longrightarrow>
   \<exists>ir_data. getIRDataFromZone img positions zone iod = Inr ir_data \<and> recorded d' zone ir_data"
proof (induction zones arbitrary: d)
  case Nil
  then show ?case by simp
next
  case (Cons z zones)
  from Cons.prems(1) obtain r where r: "getIRDataFromZone img positions z iod = Inr r"
    and rest: "add_zones img positions iod zones (put_zone z r d) = Inr d'"
    by (auto split: sum.splits)
  show ?case
  proof (cases "z = zone")
    case True
    with r have "getIRDataFromZone img positions zone iod = Inr r" by simp
    moreover from this rest True have "recorded d' zone r"
      by (auto intro: add_zones_keeps put_zone_self)
    ultimately show ?thesis by blast
  next
    case False
    with Cons.prems(2) have "zone \<in> set zones" by simp
    with Cons.IH [OF rest] show ?thesis .
  qed
qed

lemma set_update_cases:
  "p \<in> set (AList.update k v al) \<Longrightarrow> p = (k, v) \<or> p \<in> set al"
  by (induction al) (auto split: if_splits)

lemma singletons_put_zone: "singletons d \<Longrightarrow> singletons (put_zone z ir_data d)"
  by (cases ir_data) (auto simp: singletons_def list_all_iff put_zone_def dest!: set_update_cases)

lemma singletons_add_zones:
  "add_zones img positions iod zones d = Inr d' \<Longrightarrow> singletons d \<Longrightarrow> singletons d'"
  by (induction zones arbitrary: d) (auto split: sum.splits intro: singletons_put_zone)

lemma pd_DataFrame_single:
  assumes "singletons d" "map_of d k = Some (Column [x])"
  shows "pd_DataFrame d = Inr [table_row 0 d]"
proof -
  have ones: "\<forall>m \<in> set (column_lengths d). m = 1"
    using assms(1) by (auto simp: column_lengths_def singletons_def list_all_iff split: dictval.splits)
  from assms(2) have "(k, Column [x]) \<in> set d" by (rule map_of_SomeD)
  then have "1 \<in> set (column_lengths d)"
    by (force simp: column_lengths_def)
  then obtain n ns where c: "column_lengths d = n # ns"
    by (cases "column_lengths d") auto
  with ones have "n = 1" "list_all (\<lambda>m. m = 1) ns"
    by (simp_all add: list_all_iff)
  with c show ?thesis by (simp add: pd_DataFrame_def)
qed

lemma map_of_table_row:
  "map_of d k = Some (Column [x]) \<Longrightarrow> map_of (table_row 0 d) k = Some (DNum x)"
  by (simp add: table_row_def map_of_map)

text \<open>
  Claim C6 says that the record holds the statistics of a zone under the names
  \<^verbatim>\<open><zone>_med\<close>, \<^verbatim>\<open><zone>_mean\<close> and \<^verbatim>\<open><zone>_std\<close>. The record of the example
  file for the zone \<^verbatim>\<open>zone1\<close> has no column \<^verbatim>\<open>zone1_med\<close>: every name starts with
  \<^verbatim>\<open>ir_\<close>.
\<close>

theorem getIRDataFromMultipleZones_columns_counterexample:
  "snd (getIRDataFromMultipleZones [ex_path \<mapsto> ex_frame] ex_path (zone1_table 0 2 0 2)
          (ZoneList [''zone1'']))
     = Inr [[(''ir_date'', DStr ''20170815''), (''ir_time'', DStr ''10-50-08''),
             (''ir_folder'', DStr ''P0000004''), (''ir_filenumber'', DStr ''005''),
             (''ir_zone1_med'', DNum (Some 5)), (''ir_zone1_mean'', DNum (Some 5)),
             (''ir_zone1_std'', DNum (Some 0))]]
   \<and> map_of [(''ir_date'', DStr ''20170815''), (''ir_time'', DStr ''10-50-08''),
             (''ir_folder'', DStr ''P0000004''), (''ir_filenumber'', DStr ''005''),
             (''ir_zone1_med'', DNum (Some 5)), (''ir_zone1_mean'', DNum (Some 5)),
             (''ir_zone1_std'', DNum (Some 0))] ''zone1_med'' = None"
  by (simp add: ex_record)

text \<open>
  Claim C6, amended. Whenever the aggregator returns a table for a list of zone names,
  the table has one record, and for every zone name of the list the record holds,
  under the column names \<^verbatim>\<open>ir_<zone>_med\<close>, \<^verbatim>\<open>ir_<zone>_mean\<close> and \<^verbatim>\<open>ir_<zone>_std\<close>,
  the median, the mean and the standard deviation that the zone statistics engine
  computes for that zone on the frame without its empty columns, at the calibration
  row that \<^verbatim>\<open>.index(date)\<close> selects for the date of the file.
\<close>

theorem getIRDataFromMultipleZones_columns:
  assumes "getIRDataFromMultipleZones frames csvpath positions (ZoneList zones) = (positions', Inr table)"
    and "zone \<in> set zones"
  shows "\<exists>df i med mean std row.
           frames csvpath = Some df
         \<and> py_index (measurement_entries positions) (fst (getFileInfo (basename (normpath csvpath))))
             = Inr i
         \<and> getIRDataFromZone (values_tolist (dropna_all df)) positions' zone (int i)
             = Inr (med, mean, std)
         \<and> table = [row]
         \<and> map_of row (''ir_'' @ zone @ ''_med'') = Some (DNum med)
         \<and> map_of row (''ir_'' @ zone @ ''_mean'') = Some (DNum mean)
         \<and> map_of row (''ir_'' @ zone @ ''_std'') = Some (DNum std)"
proof -
  obtain date time folder filenumber
    where info: "getFileInfo (basename (normpath csvpath)) = (date, time, folder, filenumber)"
    by (cases "getFileInfo (basename (normpath csvpath))") auto
  from assms(1) obtain column where column: "map_of positions ''measurement'' = Some column"
    by (cases "map_of positions ''measurement''")
       (auto simp: getIRDataFromMultipleZones_def dict_get_def Let_def split: prod.splits)
  then have ms: "measurement_entries positions = map py_str column"
    by (simp add: measurement_entries_def)
  let ?d0 = "[(''ir_date'', Scalar date), (''ir_time'', Scalar time),
              (''ir_folder'', Scalar folder), (''ir_filenumber'', Scalar filenumber)]"
  have pos': "positions' = AList.update ''measurement'' (map PStr (map py_str column)) positions"
    using arg_cong [OF assms(1), of fst] column by (simp add: fst_getIRDataFromMultipleZones)
  have "snd (getIRDataFromMultipleZones frames csvpath positions (ZoneList zones)) = Inr table"
    using assms(1) by simp
  then obtain i df d' where i: "py_index (map py_str column) date = Inr i"
    and df: "frames csvpath = Some df"
    and d': "add_zones (values_tolist (dropna_all df)) positions' (int i) zones ?d0 = Inr d'"
    and t: "pd_DataFrame d' = Inr table"
    unfolding snd_getIRDataFromMultipleZones [OF column] info pos'
    by (auto simp: bindE_def read_csv_def split: sum.splits option.splits)
  from add_zones_records [OF d' assms(2)] obtain med mean std
    where z: "getIRDataFromZone (values_tolist (dropna_all df)) positions' zone (int i) = Inr (med, mean, std)"
      and r: "recorded d' zone (med, mean, std)"
    by (metis prod_cases3)
  have "singletons ?d0" by (simp add: singletons_def)
  with d' have s: "singletons d'" by (rule singletons_add_zones)
  from r have m: "map_of d' (''ir_'' @ zone @ ''_med'') = Some (Column [med])"
    "map_of d' (''ir_'' @ zone @ ''_mean'') = Some (Column [mean])"
    "map_of d' (''ir_'' @ zone @ ''_std'') = Some (Column [std])"
    by (simp_all add: recorded_def)
  from pd_DataFrame_single [OF s m(1)] t have "table = [table_row 0 d']" by simp
  moreover from i have "py_index (measurement_entries positions)
        (fst (getFileInfo (basename (normpath csvpath)))) = Inr i"
    by (simp add: ms info)
  ultimately show ?thesis using df z m
    by (auto simp: map_of_table_row)
qed

theorem getIRDataFromMultipleZones_columns_witness:
  "''zone1'' \<in> set [''zone1'']
   \<and> py_index (measurement_entries dup_table) (fst (getFileInfo (basename (normpath ex_path))))
       = Inr 1
   \<and> getIRDataFromZone (values_tolist (dropna_all ex_gradient)) dup_table ''zone1'' 1
       = Inr (Some 3, Some 3, Some 0)
   \<and> (\<exists>row. snd (getIRDataFromMultipleZones [ex_path \<mapsto> ex_gradient] ex_path dup_table
                    (ZoneList [''zone1''])) = Inr [row]
         \<and> map_of row ''ir_zone1_med'' = Some (DNum (Some 3))
         \<and> map_of row ''ir_zone1_mean'' = Some (DNum (Some 3))
         \<and> map_of row ''ir_zone1_std'' = Some (DNum (Some 0)))"
proof -
  have z: "''zone1'' \<in> set [''zone1'']" by simp
  from getIRDataFromMultipleZones_columns [OF dup_record z] obtain df i med mean std row where
    w: "[ex_path \<mapsto> ex_gradient] ex_path = Some df"
      "py_index (measurement_entries dup_table) (fst (getFileInfo (basename (normpath ex_path)))) = Inr i"
      "getIRDataFromZone (values_tolist (dropna_all df)) dup_table ''zone1'' (int i) = Inr (med, mean, std)"
      "map_of row (''ir_'' @ ''zone1'' @ ''_med'') = Some (DNum med)"
      "map_of row (''ir_'' @ ''zone1'' @ ''_mean'') = Some (DNum mean)"
      "map_of row (''ir_'' @ ''zone1'' @ ''_std'') = Some (DNum std)"
    and tab: "[[(''ir_date'', DStr ''20170815''), (''ir_time'', DStr ''10-50-08''),
              (''ir_folder'', DStr ''P0000004''), (''ir_filenumber'', DStr ''005''),
              (''ir_zone1_med'', DNum (Some 3)), (''ir_zone1_mean'', DNum (Some 3)),
              (''ir_zone1_std'', DNum (Some 0))]] = [row]"
    by blast
  from w(1) have df: "df = ex_gradient" by simp
  from w(2) have i: "i = 1" by (simp add: dup_entries ex_info)
  have "getIRDataFromZone (values_tolist (dropna_all ex_gradient)) dup_table ''zone1'' 1
          = Inr (Some 3, Some 3, Some 0)"
    by (simp add: gradient_image dup_stats)
  moreover have "getIRDataFromZone (values_tolist (dropna_all ex_gradient)) dup_table ''zone1'' 1
          = Inr (med, mean, std)"
    using w(3) unfolding df i by simp
  ultimately have "(Inr (med, mean, std) :: error + cell \<times> cell \<times> cell) = Inr (Some 3, Some 3, Some 0)"
    by (metis)
  then have s: "med = Some 3" "mean = Some 3" "std = Some 0"
    by blast+
  have "snd (getIRDataFromMultipleZones [ex_path \<mapsto> ex_gradient] ex_path dup_table
               (ZoneList [''zone1''])) = Inr [row]"
    by (simp add: dup_record tab [symmetric])
  moreover from w(4-6) s have "map_of row ''ir_zone1_med'' = Some (DNum (Some 3))"
    "map_of row ''ir_zone1_mean'' = Some (DNum (Some 3))"
    "map_of row ''ir_zone1_std'' = Some (DNum (Some 0))"
    by simp_all
  moreover from w(2) i have "py_index (measurement_entries dup_table)
      (fst (getFileInfo (basename (normpath ex_path)))) = Inr 1" by simp
  moreover from w(3) have "getIRDataFromZone (values_tolist (dropna_all ex_gradient)) dup_table ''zone1'' 1
       = Inr (Some 3, Some 3, Some 0)"
    unfolding df i s by simp
  ultimately show ?thesis using z by blast
qed

section \<open>Properties of the batch driver\<close>

text \<open>
  Claim C3 expects one record per frame file. The driver passes the number of zones
  where the aggregator iterates over zone names, so the first file whose date is in
  the table ends the batch with a \<^verbatim>\<open>TypeError\<close>; here a calibration table with one
  row and the one frame file of its date.
\<close>

theorem AnalyzeIRData_aborts: "AnalyzeIRData ex_world = Inl TypeError"
proof -
  have pos: "AList.update ''measurement'' (map PStr (map py_str [PStr ''20170815''])) (zone1_table 0 2 0 2)
               = zone1_table 0 2 0 2"
    by (simp add: zone1_table_def)
  have m: "dict_get (zone1_table 0 2 0 2) ''measurement'' = Inr [PStr ''20170815'']"
    by (simp add: dict_get_def zone1_table_def)
  have "getIRDataFromMultipleZones [ex_path \<mapsto> ex_frame] ex_path (zone1_table 0 2 0 2) (ZoneCount 1)
          = (zone1_table 0 2 0 2, Inl TypeError)"
    unfolding getIRDataFromMultipleZones_def Let_def ex_info prod.case m sum.case pos
    by (simp add: bindE_def read_csv_def)
  then show ?thesis
    by (simp add: AnalyzeIRData_def ex_world_def ex_loader bindE_def)
qed

text \<open>
  More generally the driver writes a table only when there is no frame file at all,
  and the table then has no record.
\<close>

lemma ZoneCount_fails:
  "\<exists>e. snd (getIRDataFromMultipleZones frames csvpath positions (ZoneCount n)) = Inl e"
  by (simp add: getIRDataFromMultipleZones_def Let_def bindE_def split: prod.splits sum.splits)

lemma AnalyzeIRData_never_records:
  assumes "AnalyzeIRData w = Inr table"
  shows "glob_result w = [] \<and> table = []"
proof -
  from assms obtain positions numberOfZones where
    a: "analyze (frame_files w) (ZoneCount numberOfZones) (glob_result w) positions [] = Inr table"
    by (auto simp: AnalyzeIRData_def bindE_def split: sum.splits)
  show ?thesis
  proof (cases "glob_result w")
    case Nil
    with a show ?thesis by simp
  next
    case (Cons csvfile rest)
    from ZoneCount_fails [of "frame_files w" csvfile positions numberOfZones]
    obtain e where "snd (getIRDataFromMultipleZones (frame_files w) csvfile positions (ZoneCount numberOfZones)) = Inl e"
      by blast
    with a Cons show ?thesis
      by (cases "getIRDataFromMultipleZones (frame_files w) csvfile positions (ZoneCount numberOfZones)") simp
  qed
qed

end
